theory Spec2Isabelle
  imports Complex_Main "HOL-Library.Char_ord" "HOL-Library.List_Lexorder" "HOL-Library.Multiset"
begin

section \<open>Values of the order table\<close>

text \<open>
  The scripts of the repository read one order file with pandas and work on the
  resulting table. The column names of the file are Korean; this development names
  each column in English after its meaning and pins it to the source line that reads it:
  \<^item> \<open>OrderNo\<close>: the order id column counted at app.py:110;
  \<^item> \<open>SellerName\<close>: the seller column grouped at app.py:107;
  \<^item> \<open>Contact\<close>: the customer contact column tested at app.py:51 and app.py:123;
  \<^item> \<open>PaidAmount\<close>: the paid amount column cleaned at app.py:87-91;
  \<^item> \<open>SupplyPrice\<close>: the supply unit price column cleaned at app.py:94-97;
  \<^item> \<open>Qty\<close>: the order quantity column multiplied at app.py:99;
  \<^item> \<open>CancelFlag\<close>: the cancellation flag column tested at app.py:104;
  \<^item> \<open>OrderDay\<close>: the raw order time column tested at app.py:37.
  The remaining columns are the ones the scripts create under English names.

  A cell of a text column is a string or is missing; a cell of a numeric column is a
  number or is missing. Numbers are modelled as reals: rounding and overflow of the
  64-bit floats are not part of the model, the special values of float division are.
  A real number does not say how Python prints the float or integer it stands for, and
  the source prints number cells (\<open>astype(str)\<close>); so a number cell \<open>Num x t\<close> carries,
  beside its value \<open>x\<close>, the text \<open>t\<close> that \<open>str\<close> gives for it, such as \<open>5000\<close>,
  \<open>5000.0\<close> or \<open>1e-05\<close>.

  A text is a list of characters with codes below 256. Among these the class \<open>\d\<close> of
  Python's regular expressions holds exactly the digits 0 to 9; characters beyond that
  range are not part of the model.
\<close>

datatype cell = Str string | Num real string | Missing

datatype fval = Fin real | PInf | NInf | NaN

datatype py_error = KeyError | ValueError

text \<open>Float division as pandas performs it on numeric columns: no exception, a zero
  divisor gives an infinity or NaN.\<close>

definition fdiv :: "real \<Rightarrow> real \<Rightarrow> fval" where
  "fdiv a b =
     (if b \<noteq> 0 then Fin (a / b)
      else if a > 0 then PInf
      else if a < 0 then NInf
      else NaN)"

definition fscale :: "fval \<Rightarrow> real \<Rightarrow> fval" where
  \<comment> \<open>multiplication of a float by a positive constant\<close>
  "fscale v k = (case v of Fin x \<Rightarrow> Fin (x * k) | PInf \<Rightarrow> PInf | NInf \<Rightarrow> NInf | NaN \<Rightarrow> NaN)"

definition fillna0 :: "fval \<Rightarrow> fval" where
  \<comment> \<open>\<open>Series.fillna(0)\<close>: only NaN is replaced\<close>
  "fillna0 v = (case v of NaN \<Rightarrow> Fin 0 | _ \<Rightarrow> v)"

section \<open>Reading numbers from text\<close>

definition is_digit :: "char \<Rightarrow> bool" where
  "is_digit c = (c \<in> set ''0123456789'')"

definition digit_val :: "char \<Rightarrow> nat" where
  "digit_val c = of_char c - 48"

definition digits_val :: "string \<Rightarrow> nat" where
  "digits_val ds = foldl (\<lambda>a c. 10 * a + digit_val c) 0 ds"

text \<open>A run of digits in which single underscores may separate digits, as Python's
  \<open>float\<close> accepts it. Returns the digits read and the rest of the text.\<close>

fun digitpart :: "bool \<Rightarrow> string \<Rightarrow> string \<times> string" where
  "digitpart prev [] = ([], [])"
| "digitpart prev (c # cs) =
     (if is_digit c then (case digitpart True cs of (ds, r) \<Rightarrow> (c # ds, r))
      else if c = CHR ''_'' \<and> prev \<and> (case cs of [] \<Rightarrow> False | d # _ \<Rightarrow> is_digit d)
        then digitpart False cs
      else ([], c # cs))"

definition lower :: "char \<Rightarrow> char" where
  "lower c = (if c \<in> set ''ABCDEFGHIJKLMNOPQRSTUVWXYZ'' then char_of (of_char c + (32::nat)) else c)"

definition is_space :: "char \<Rightarrow> bool" where
  "is_space c = (of_char c \<in> {9, 10, 11, 12, 13, 32 :: nat})"

definition strip_ws :: "string \<Rightarrow> string" where
  "strip_ws s = rev (dropWhile is_space (rev (dropWhile is_space s)))"

text \<open>The exponent of a float literal: \<open>e\<close> or \<open>E\<close>, an optional sign, a digit part,
  and nothing after it. An absent exponent is 0.\<close>

definition exponent :: "string \<Rightarrow> int option" where
  "exponent s =
     (case s of
        [] \<Rightarrow> Some 0
      | c # cs \<Rightarrow>
          if c = CHR ''e'' \<or> c = CHR ''E'' then
            (let (neg, body) =
               (case cs of
                  [] \<Rightarrow> (False, [])
                | d # ds \<Rightarrow> if d = CHR ''-'' then (True, ds)
                            else if d = CHR ''+'' then (False, ds) else (False, cs))
             in case digitpart False body of
                  (ds, r) \<Rightarrow>
                    if ds = [] \<or> r \<noteq> [] then None
                    else Some (if neg then - int (digits_val ds) else int (digits_val ds)))
          else None)"

definition pow10 :: "int \<Rightarrow> real" where
  "pow10 e = (if e \<ge> 0 then 10 ^ nat e else 1 / 10 ^ nat (- e))"

text \<open>An unsigned decimal number: digits, an optional point and digits, at least one
  digit in all, then an optional exponent. Underscores between digits are accepted only
  when \<open>us\<close> is set.\<close>

definition unsigned_number :: "bool \<Rightarrow> string \<Rightarrow> real option" where
  "unsigned_number us s =
     (case digitpart False s of
        (ip, r1) \<Rightarrow>
          (let (fp, r2) =
             (case r1 of
                [] \<Rightarrow> ([], [])
              | c # cs \<Rightarrow> if c = CHR ''.'' then digitpart False cs else ([], r1))
           in if ip = [] \<and> fp = [] then None
              else case exponent r2 of
                     None \<Rightarrow> None
                   | Some e \<Rightarrow>
                       if \<not> us \<and> (CHR ''_'' \<in> set s) then None
                       else Some ((real (digits_val ip)
                                   + real (digits_val fp) / 10 ^ length fp) * pow10 e)))"

text \<open>Python's \<open>float(s)\<close> on a string (the conversion \<open>astype(float)\<close> applies to each
  cell of a text column): surrounding whitespace is dropped, then a sign, then
  \<open>inf\<close>, \<open>infinity\<close> or \<open>nan\<close> in any case, or a decimal number.
  \<open>None\<close> is the \<open>ValueError\<close> of the source.\<close>

definition py_float :: "string \<Rightarrow> fval option" where
  "py_float s0 =
     (let s = strip_ws s0;
          (neg, body) =
            (case s of
               [] \<Rightarrow> (False, [])
             | c # cs \<Rightarrow> if c = CHR ''-'' then (True, cs)
                         else if c = CHR ''+'' then (False, cs) else (False, s));
          low = map lower body
      in if low = ''inf'' \<or> low = ''infinity'' then Some (if neg then NInf else PInf)
         else if low = ''nan'' then Some NaN
         else (case unsigned_number True body of
                 None \<Rightarrow> None
               | Some v \<Rightarrow> Some (Fin (if neg then - v else v))))"

text \<open>\<open>pd.to_numeric(..., errors='coerce')\<close> on a text cell: whitespace, a sign and a
  decimal number with an optional exponent; \<open>None\<close> is the NaN that \<open>coerce\<close> puts in
  place of an unreadable text. (pandas also reads the words \<open>inf\<close> and \<open>nan\<close>; every
  caller in the source removes all letters before, so they cannot reach this function.)\<close>

definition to_numeric :: "string \<Rightarrow> real option" where
  "to_numeric s0 =
     (let s = strip_ws s0
      in case s of
           [] \<Rightarrow> None
         | c # cs \<Rightarrow>
             if c = CHR ''-'' then map_option uminus (unsigned_number False cs)
             else if c = CHR ''+'' then unsigned_number False cs
             else unsigned_number False s)"

text \<open>app.py:90 and app.py:96: \<open>.str.replace(r'[^\d\.-]', '', regex=True)\<close> deletes every
  character that is not a digit, a point or a minus sign. Among the characters of this
  model, those with codes below 256, the digits of \<open>\d\<close> are 0 to 9. A character
  beyond that range that is no digit would be deleted like a letter; a digit of another
  script, which \<open>\d\<close> matches as well, is outside the model.\<close>

definition regex_strip :: "string \<Rightarrow> string" where
  "regex_strip s = filter (\<lambda>c. is_digit c \<or> c = CHR ''.'' \<or> c = CHR ''-'') s"

text \<open>\<open>astype(str)\<close> on one cell: a text stays, a number becomes the text Python
  prints for it, a missing cell becomes the text \<open>nan\<close>.\<close>

fun astype_str :: "cell \<Rightarrow> string" where
  "astype_str (Str s) = s"
| "astype_str (Num x t) = t"
| "astype_str Missing = ''nan''"

text \<open>\<open>astype(str)\<close> followed by the replacement, on one cell.\<close>

definition strip_cell :: "cell \<Rightarrow> string" where
  "strip_cell c = regex_strip (astype_str c)"

text \<open>\<open>pd.to_numeric(..., errors='coerce').fillna(0)\<close> on a text: the number read, or 0
  in place of the NaN of a text that is not a number.\<close>

definition text_to_number :: "string \<Rightarrow> real" where
  "text_to_number s = (case to_numeric s of None \<Rightarrow> 0 | Some v \<Rightarrow> v)"

text \<open>The same on a cell of a column that holds no text: a number passes, a missing
  cell becomes 0. (A text cannot occur in such a column; it is read like a text.)\<close>

fun cell_to_number :: "cell \<Rightarrow> real" where
  "cell_to_number (Str s) = text_to_number s"
| "cell_to_number (Num x t) = x"
| "cell_to_number Missing = 0"

fun is_text :: "cell \<Rightarrow> bool" where
  "is_text (Str _) = True"
| "is_text _ = False"

definition is_object :: "cell list \<Rightarrow> bool" where
  \<comment> \<open>the dtype of a column read from the file is \<open>object\<close> when it holds text\<close>
  "is_object col = list_ex is_text col"

text \<open>app.py:89-91, on one cell of the paid amount column; \<open>obj\<close> is the dtype test of
  line 89.\<close>

definition clean_paid_cell :: "bool \<Rightarrow> cell \<Rightarrow> real" where
  "clean_paid_cell obj c = (if obj then text_to_number (strip_cell c) else cell_to_number c)"

text \<open>app.py:96-97, on one cell of the supply unit price column.\<close>

definition clean_supply_cell :: "cell \<Rightarrow> real" where
  "clean_supply_cell c = text_to_number (strip_cell c)"


section \<open>The order table\<close>

text \<open>
  One row of the table. Every column the modelled functions read or create has a field;
  \<open>columns\<close> of the table says which of them exist, and a field of a column that does
  not exist carries no information. Text cells that are only compared (order id, seller,
  contact, cancellation flag) are \<open>None\<close> when missing. Times are seconds on the time
  line, calendar days are day numbers, and \<open>None\<close> is the missing time \<open>NaT\<close> of a row
  whose order time cell is empty; reading times from text is left to pandas. Every row
  has a quantity: a missing quantity is not part of the model.

  The paid amount column has two fields. \<open>PaidAmount\<close> holds the cells as the file has
  them. When app.py:91 overwrites the column with the numbers read from it, the numbers
  go to \<open>PaidNumber\<close> and \<open>paid_numeric\<close> of the table records that the column is
  now a column of numbers without missing cells; from then on \<open>PaidNumber\<close> is the
  content of the column.
\<close>

record order_row =
  OrderNo :: "string option"
  SellerName :: "string option"
  Contact :: "string option"
  PaidAmount :: cell
  PaidNumber :: real
  SupplyPrice :: cell
  Qty :: real
  CancelFlag :: "string option"
  OrderDay :: "int option"
  OrderDate :: "int option"
  Date :: "int option"
  UserTotalOrders :: "nat option"
  RepurchaseCount :: int
  RepurchaseTimes :: int
  SupplyCost :: real
  Margin :: real
  IsCancelled :: nat

record dataframe =
  columns :: "string set"
  paid_numeric :: bool
  body :: "order_row list"

definition seconds_per_day :: int where
  "seconds_per_day = 86400"

definition dt_date :: "int \<Rightarrow> int" where
  \<comment> \<open>\<open>.dt.date\<close>: the calendar day of a time\<close>
  "dt_date t = t div seconds_per_day"

definition dt_days :: "int \<Rightarrow> int" where
  \<comment> \<open>\<open>.dt.days\<close> of a time difference: whole days, rounded down\<close>
  "dt_days d = d div seconds_per_day"

definition nunique :: "'a option list \<Rightarrow> nat" where
  \<comment> \<open>\<open>Series.nunique()\<close>: distinct values, missing ones not counted\<close>
  "nunique xs = length (remdups (List.map_filter id xs))"

section \<open>The seller metrics aggregator (app.py:84-156)\<close>

text \<open>The function is modelled as its body runs on a call. The caching decorator of
  app.py:83, which may answer a repeated call without running the body, is not part of
  the model.\<close>

text \<open>app.py:87-91. The assignment overwrites the column of the table with the numbers.
  A column that is already one of numbers without missing cells passes unchanged.\<close>

definition clean_paid_amount :: "dataframe \<Rightarrow> dataframe" where
  "clean_paid_amount df =
     (if ''PaidAmount'' \<in> columns df \<and> \<not> paid_numeric df then
        (let obj = is_object (map PaidAmount (body df))
         in df\<lparr>paid_numeric := True,
               body := map (\<lambda>r. r\<lparr>PaidNumber := clean_paid_cell obj (PaidAmount r)\<rparr>) (body df)\<rparr>)
      else df)"

text \<open>app.py:94-102. Reading a column that does not exist raises \<open>KeyError\<close>; the
  columns assigned before the error stay in the table. Line 100 reads the paid amount
  column after line 91 has made it a column of numbers.\<close>

definition add_margin :: "dataframe \<Rightarrow> dataframe \<times> py_error option" where
  "add_margin df =
     (if ''SupplyPrice'' \<in> columns df then
        (if ''Qty'' \<notin> columns df then (df, Some KeyError)
         else
           (let df1 = df\<lparr>columns := insert ''SupplyCost'' (columns df),
                          body := map (\<lambda>r. r\<lparr>SupplyCost := clean_supply_cell (SupplyPrice r) * Qty r\<rparr>)
                                      (body df)\<rparr>
            in if ''PaidAmount'' \<notin> columns df1 then (df1, Some KeyError)
               else (df1\<lparr>columns := insert ''Margin'' (columns df1),
                         body := map (\<lambda>r. r\<lparr>Margin := PaidNumber r - SupplyCost r\<rparr>)
                                     (body df1)\<rparr>, None)))
      else (df\<lparr>columns := insert ''Margin'' (columns df),
                body := map (\<lambda>r. r\<lparr>Margin := 0\<rparr>) (body df)\<rparr>, None))"

text \<open>app.py:104. The lambda compares the cell with the text \<open>Y\<close>.\<close>

definition is_cancelled_of :: "string option \<Rightarrow> nat" where
  "is_cancelled_of x = (if x = Some ''Y'' then 1 else 0)"

definition add_is_cancelled :: "dataframe \<Rightarrow> dataframe" where
  "add_is_cancelled df =
     df\<lparr>columns := insert ''IsCancelled'' (columns df),
        body := map (\<lambda>r. r\<lparr>IsCancelled :=
                              (if ''CancelFlag'' \<in> columns df then is_cancelled_of (CancelFlag r)
                               else 0)\<rparr>)
                    (body df)\<rparr>"

text \<open>One row of the seller summary.\<close>

record seller_summary =
  Seller :: string
  TotalRevenue :: real
  TotalMargin :: real
  OrderCount :: nat
  TotalQty :: real
  CancelCount :: nat
  MarginRate :: fval
  CancelRate :: fval
  AOV :: fval
  RepurchaseRate :: real
  FirstOrderDate :: "int option"
  LastOrderDate :: "int option"
  TenureDays :: "int option"
  RecencyDays :: "int option"

text \<open>app.py:107: \<open>groupby\<close> makes one group for each seller name that occurs, in
  ascending order of the names; rows without a seller name belong to no group.\<close>

definition group_keys :: "order_row list \<Rightarrow> string list" where
  "group_keys rows = sort (remdups (List.map_filter SellerName rows))"

definition seller_rows :: "order_row list \<Rightarrow> string \<Rightarrow> order_row list" where
  \<comment> \<open>the rows of one group, also \<open>df[df[seller column] == seller]\<close> of app.py:126\<close>
  "seller_rows rows s = filter (\<lambda>r. SellerName r = Some s) rows"

text \<open>app.py:116-119: the rates of one summary row.\<close>

definition margin_rate :: "real \<Rightarrow> real \<Rightarrow> fval" where
  "margin_rate total_margin total_revenue = fillna0 (fscale (fdiv total_margin total_revenue) 100)"

definition cancel_rate :: "nat \<Rightarrow> nat \<Rightarrow> fval" where
  "cancel_rate cancel_count order_count = fscale (fdiv (real cancel_count) (real order_count)) 100"

definition aov :: "real \<Rightarrow> nat \<Rightarrow> fval" where
  "aov total_revenue order_count = fdiv total_revenue (real order_count)"

text \<open>app.py:126-130, for the rows of one seller: \<open>value_counts\<close> counts the rows of
  each contact that is not missing.\<close>

definition value_counts :: "string option list \<Rightarrow> (string \<times> nat) list" where
  "value_counts xs =
     (let ys = List.map_filter id xs in map (\<lambda>c. (c, count_list ys c)) (remdups ys))"

definition repurchase_rate :: "order_row list \<Rightarrow> real" where
  "repurchase_rate seller_df =
     (let user_counts = value_counts (map Contact seller_df);
          total_users = length user_counts;
          re_users = length (filter (\<lambda>(c, n). n > 1) user_counts)
      in if total_users > 0 then real re_users / real total_users * 100 else 0)"

text \<open>app.py:138: the earliest and the latest order time of a group, taken over the
  times that are not missing; \<open>None\<close> is the missing time pandas gives when there is
  none.\<close>

fun series_min :: "int list \<Rightarrow> int option" where
  "series_min [] = None"
| "series_min (x # xs) = Some (foldl min x xs)"

fun series_max :: "int list \<Rightarrow> int option" where
  "series_max [] = None"
| "series_max (x # xs) = Some (foldl max x xs)"

definition days_between :: "int option \<Rightarrow> int option \<Rightarrow> int option" where
  \<comment> \<open>\<open>(later - earlier).dt.days\<close>; a missing time gives a missing result\<close>
  "days_between later earlier =
     (case (later, earlier) of (Some b, Some a) \<Rightarrow> Some (dt_days (b - a)) | _ \<Rightarrow> None)"

text \<open>The summary row of one seller, with every column of app.py:107-154.\<close>

definition summary_of :: "dataframe \<Rightarrow> string \<Rightarrow> seller_summary" where
  "summary_of df s =
     (let rs = seller_rows (body df) s;
          total_revenue = sum_list (map PaidNumber rs);
          total_margin = sum_list (map Margin rs);
          order_count = nunique (map OrderNo rs);
          cancel_count = sum_list (map IsCancelled rs);
          has_date = (''OrderDate'' \<in> columns df);
          first = (if has_date then series_min (List.map_filter OrderDate rs) else None);
          last = (if has_date then series_max (List.map_filter OrderDate rs) else None)
      in \<lparr>Seller = s,
          TotalRevenue = total_revenue,
          TotalMargin = total_margin,
          OrderCount = order_count,
          TotalQty = sum_list (map Qty rs),
          CancelCount = cancel_count,
          MarginRate = margin_rate total_margin total_revenue,
          CancelRate = cancel_rate cancel_count order_count,
          AOV = aov total_revenue order_count,
          RepurchaseRate = (if ''Contact'' \<in> columns df then repurchase_rate rs else 0),
          FirstOrderDate = first,
          LastOrderDate = last,
          TenureDays = (if has_date then map_option (\<lambda>d. d + 1) (days_between last first)
                        else Some 0),
          RecencyDays = (if has_date
                         then days_between (series_max (List.map_filter OrderDate (body df))) last
                         else Some 0)\<rparr>)"

text \<open>app.py:156: \<open>sort_values(by='TotalRevenue', ascending=False)\<close>. The source asks
  for the default sorting algorithm of the library, which is not a stable one: the order
  the library leaves among sellers of equal revenue is not determined by the source and
  can differ from the one of this definition, which keeps equal keys in their order.
  Nothing is proved below about the order among equal keys; the properties of the rows
  of the summary do not depend on it.\<close>

definition sort_values_desc :: "seller_summary list \<Rightarrow> seller_summary list" where
  "sort_values_desc xs = sort_key (\<lambda>x. - TotalRevenue x) xs"

text \<open>The whole function. It returns the table as the function leaves it, and either
  the error that ended the call or the summary.\<close>

definition calculate_seller_metrics ::
    "dataframe \<Rightarrow> dataframe \<times> (py_error + seller_summary list)" where
  "calculate_seller_metrics df0 =
     (let df1 = clean_paid_amount df0
      in case add_margin df1 of
           (df2, Some e) \<Rightarrow> (df2, Inl e)
         | (df2, None) \<Rightarrow>
             (let df3 = add_is_cancelled df2
              in if {''SellerName'', ''PaidAmount'', ''OrderNo'', ''Qty''} \<subseteq> columns df3
                 then (df3, Inr (sort_values_desc (map (summary_of df3) (group_keys (body df3)))))
                 else (df3, Inl KeyError)))"

section \<open>The repurchase annotators\<close>

text \<open>app.py:37-39: the order time is read into \<open>OrderDate\<close> and its calendar day
  into \<open>Date\<close>; a missing time stays missing in both.\<close>

definition load_data_dates :: "dataframe \<Rightarrow> dataframe" where
  "load_data_dates df =
     (if ''OrderDay'' \<in> columns df then
        df\<lparr>columns := insert ''Date'' (insert ''OrderDate'' (columns df)),
           body := map (\<lambda>r. r\<lparr>OrderDate := OrderDay r, Date := map_option dt_date (OrderDay r)\<rparr>)
                       (body df)\<rparr>
      else df)"

text \<open>\<open>sort_values(by=[contact, day])\<close>: ascending by contact, then by day, rows
  without a contact last and, among the rows of a contact, rows without a day last;
  rows with equal keys keep their order.\<close>

definition contact_key :: "order_row \<Rightarrow> string" where
  "contact_key r = (case Contact r of None \<Rightarrow> [] | Some c \<Rightarrow> c)"

definition day_key :: "(order_row \<Rightarrow> int option) \<Rightarrow> order_row \<Rightarrow> int" where
  "day_key day r = (case day r of None \<Rightarrow> 0 | Some d \<Rightarrow> d)"

definition sort_by_contact :: "(order_row \<Rightarrow> int option) \<Rightarrow> order_row list \<Rightarrow> order_row list" where
  "sort_by_contact day rows =
     (let by_day = sort_key (day_key day) (filter (\<lambda>r. day r \<noteq> None) rows)
                   @ filter (\<lambda>r. day r = None) rows
      in sort_key contact_key (filter (\<lambda>r. Contact r \<noteq> None) by_day)
         @ filter (\<lambda>r. Contact r = None) by_day)"

text \<open>\<open>groupby(contact)[day].nunique()\<close>, as the lookup that \<open>map\<close> performs with it:
  a contact of the table gives the number of its distinct days, missing days not
  counted, anything else is missing.\<close>

definition user_order_counts ::
    "(order_row \<Rightarrow> int option) \<Rightarrow> order_row list \<Rightarrow> string \<Rightarrow> nat option" where
  "user_order_counts day rows c =
     (if Some c \<in> set (map Contact rows)
      then Some (nunique (map day (filter (\<lambda>r. Contact r = Some c) rows)))
      else None)"

definition map_counts ::
    "(order_row \<Rightarrow> int option) \<Rightarrow> order_row list \<Rightarrow> order_row \<Rightarrow> nat option" where
  \<comment> \<open>\<open>df[contact].map(user_order_counts)\<close> on one row\<close>
  "map_counts day rows r =
     (case Contact r of None \<Rightarrow> None | Some c \<Rightarrow> user_order_counts day rows c)"

definition minus_one_fillna :: "nat option \<Rightarrow> int" where
  \<comment> \<open>\<open>(UserTotalOrders - 1).fillna(0).astype(int)\<close>\<close>
  "minus_one_fillna n = (case n of None \<Rightarrow> 0 | Some k \<Rightarrow> int k - 1)"

text \<open>app.py:51-56.\<close>

definition load_data_repurchase :: "dataframe \<Rightarrow> py_error + dataframe" where
  "load_data_repurchase df =
     (if ''Contact'' \<in> columns df \<and> ''OrderDate'' \<in> columns df then
        (if ''Date'' \<notin> columns df then Inl KeyError
         else
           (let rows = sort_by_contact Date (body df)
            in Inr (df\<lparr>columns := insert ''RepurchaseCount'' (insert ''UserTotalOrders'' (columns df)),
                       body := map (\<lambda>r. r\<lparr>UserTotalOrders := map_counts Date rows r,
                                            RepurchaseCount := minus_one_fillna (map_counts Date rows r)\<rparr>)
                                   rows\<rparr>)))
      else Inr df)"

text \<open>eda_script.py:45-81. Here \<open>OrderDate\<close> receives the calendar day of the order
  time, and the count goes to the column this development calls \<open>RepurchaseTimes\<close>
  (assigned at eda_script.py:76).\<close>

definition calculate_repurchase :: "dataframe \<Rightarrow> dataframe" where
  "calculate_repurchase df =
     (if ''Contact'' \<notin> columns df \<or> ''OrderDay'' \<notin> columns df then df
      else
        (let rows = sort_by_contact OrderDate
                      (map (\<lambda>r. r\<lparr>OrderDate := map_option dt_date (OrderDay r)\<rparr>) (body df))
         in df\<lparr>columns := insert ''RepurchaseTimes''
                             (insert ''UserTotalOrders'' (insert ''OrderDate'' (columns df))),
                body := map (\<lambda>r. r\<lparr>UserTotalOrders := map_counts OrderDate rows r,
                                     RepurchaseTimes := minus_one_fillna (map_counts OrderDate rows r)\<rparr>)
                            rows\<rparr>))"

text \<open>The rows of the table after the block of app.py:51-56, none when it raised.\<close>

definition annotated :: "dataframe \<Rightarrow> order_row list" where
  "annotated df = (case load_data_repurchase df of Inl e \<Rightarrow> [] | Inr d \<Rightarrow> body d)"

section \<open>The seller repurchase report (seller_repurchase_analysis.py:17-87)\<close>

record repurchase_result =
  Seller_r :: "string option"
  TotalCustomers :: nat
  RepurchasingCustomers :: nat
  RepurchaseRate_r :: real
  TotalRevenue_r :: fval

definition unique :: "'a list \<Rightarrow> 'a list" where
  \<comment> \<open>\<open>Series.unique()\<close>: the values in order of first appearance, a missing one included\<close>
  "unique xs = rev (remdups (rev xs))"

fun fadd :: "fval \<Rightarrow> fval \<Rightarrow> fval" where
  "fadd (Fin a) (Fin b) = Fin (a + b)"
| "fadd NaN _ = NaN"
| "fadd _ NaN = NaN"
| "fadd PInf NInf = NaN"
| "fadd NInf PInf = NaN"
| "fadd PInf _ = PInf"
| "fadd _ PInf = PInf"
| "fadd NInf _ = NInf"
| "fadd _ NInf = NInf"

definition nansum :: "fval list \<Rightarrow> fval" where
  \<comment> \<open>\<open>Series.sum()\<close>: NaN cells are skipped\<close>
  "nansum xs = foldl fadd (Fin 0) (filter (\<lambda>v. v \<noteq> NaN) xs)"

text \<open>seller_repurchase_analysis.py:66, on one cell:
  \<open>astype(str).str.replace(',', '').astype(float)\<close>. The text of a missing cell,
  \<open>nan\<close>, reads back as NaN.\<close>

definition revenue_cell :: "cell \<Rightarrow> py_error + fval" where
  "revenue_cell c =
     (case py_float (filter (\<lambda>c. c \<noteq> CHR '','') (astype_str c)) of
        None \<Rightarrow> Inl ValueError
      | Some v \<Rightarrow> Inr v)"

fun collect :: "(py_error + 'a) list \<Rightarrow> py_error + 'a list" where
  \<comment> \<open>the first error ends the computation\<close>
  "collect [] = Inr []"
| "collect (x # xs) =
     (case x of
        Inl e \<Rightarrow> Inl e
      | Inr v \<Rightarrow> (case collect xs of Inl e \<Rightarrow> Inl e | Inr vs \<Rightarrow> Inr (v # vs)))"

text \<open>seller_repurchase_analysis.py:52-74: the body of the loop, for one seller.\<close>

definition seller_result :: "order_row list \<Rightarrow> string option \<Rightarrow> py_error + repurchase_result" where
  "seller_result rows seller =
     (let seller_df = (case seller of None \<Rightarrow> [] | Some s \<Rightarrow> seller_rows rows s);
          total_customers = nunique (map Contact seller_df);
          customer_date_counts =
            map (\<lambda>c. nunique (map Date (filter (\<lambda>r. Contact r = Some c) seller_df)))
                (remdups (List.map_filter Contact seller_df));
          repurchasing_customers = length (filter (\<lambda>n. n > 1) customer_date_counts);
          repurchase_rate = (if total_customers > 0
                             then real repurchasing_customers / real total_customers * 100
                             else 0)
      in case collect (map (\<lambda>r. revenue_cell (PaidAmount r)) seller_df) of
           Inl e \<Rightarrow> Inl e
         | Inr vs \<Rightarrow>
             Inr \<lparr>Seller_r = seller,
                  TotalCustomers = total_customers,
                  RepurchasingCustomers = repurchasing_customers,
                  RepurchaseRate_r = repurchase_rate,
                  TotalRevenue_r = nansum vs\<rparr>)"

text \<open>The function up to the table \<open>results\<close> of line 76, which the rest of the
  function prints and plots. \<open>None\<close> is the early return after a missing column.\<close>

definition analyze_seller_repurchase :: "dataframe \<Rightarrow> py_error + repurchase_result list option" where
  "analyze_seller_repurchase df0 =
     (if ''OrderDay'' \<notin> columns df0 then Inr None
      else
        (let df = load_data_dates df0
         in if \<not> {''SellerName'', ''Contact'', ''Date'', ''PaidAmount''} \<subseteq> columns df then Inr None
            else (case collect (map (seller_result (body df)) (unique (map SellerName (body df)))) of
                    Inl e \<Rightarrow> Inl e
                  | Inr rs \<Rightarrow> Inr (Some rs))))"

section \<open>Tables used as examples\<close>

text \<open>A row as it comes from the file, before any script has added a column.\<close>

definition file_row ::
    "string option \<Rightarrow> string option \<Rightarrow> string option \<Rightarrow> cell \<Rightarrow> cell \<Rightarrow> real \<Rightarrow> string option
       \<Rightarrow> int option \<Rightarrow> order_row" where
  "file_row ono seller contact paid supply qty flag t =
     \<lparr>OrderNo = ono, SellerName = seller, Contact = contact, PaidAmount = paid,
      PaidNumber = 0, SupplyPrice = supply, Qty = qty, CancelFlag = flag, OrderDay = t,
      OrderDate = None, Date = None, UserTotalOrders = None, RepurchaseCount = 0,
      RepurchaseTimes = 0, SupplyCost = 0, Margin = 0, IsCancelled = 0\<rparr>"

definition file_columns :: "string set" where
  "file_columns = {''OrderNo'', ''SellerName'', ''Contact'', ''PaidAmount'', ''SupplyPrice'',
                   ''Qty'', ''CancelFlag'', ''OrderDay''}"

definition file_table :: "order_row list \<Rightarrow> dataframe" where
  "file_table rows = \<lparr>columns = file_columns, paid_numeric = False, body = rows\<rparr>"

text \<open>The summary rows of a call, empty when the call raised.\<close>

definition summaries :: "dataframe \<Rightarrow> seller_summary list" where
  "summaries df = (case snd (calculate_seller_metrics df) of Inl e \<Rightarrow> [] | Inr xs \<Rightarrow> xs)"

text \<open>The table of results of the repurchase report, empty when the call raised or
  returned early.\<close>

definition report :: "dataframe \<Rightarrow> repurchase_result list" where
  "report df = (case analyze_seller_repurchase df of Inr (Some rs) \<Rightarrow> rs | _ \<Rightarrow> [])"

text \<open>An example with four sellers of different revenue: \<open>A\<close> has two unpaid orders,
  one with a supply cost, \<open>B\<close> one order of two lines by the same customer on the same
  day, one line cancelled, \<open>C\<close> one row without order id and contact, \<open>D\<close> one
  order sold at cost.\<close>

definition example_rows :: "order_row list" where
  "example_rows =
     [file_row (Some ''o1'') (Some ''A'') (Some ''c1'') (Str ''0'') (Str ''5,000'') 1 (Some ''N'') (Some 0),
      file_row (Some ''o2'') (Some ''B'') (Some ''c1'') (Str ''100'') (Str ''100'') 1 (Some ''N'') (Some 100000),
      file_row (Some ''o2'') (Some ''B'') (Some ''c1'') (Str ''1,000'') (Str ''100'') 2 (Some ''Y'') (Some 100000),
      file_row None (Some ''C'') None (Str ''50'') (Str ''0'') 1 None (Some 200000),
      file_row (Some ''o3'') (Some ''D'') (Some ''c2'') (Str ''100'') (Str ''100'') 1 (Some ''N'') (Some 300000),
      file_row (Some ''o4'') (Some ''A'') (Some ''c3'') (Str ''0'') (Str ''0'') 1 (Some ''y'') (Some 250000)]"

definition example_table :: dataframe where
  "example_table = load_data_dates (file_table example_rows)"

text \<open>A table for the repurchase annotators: customer \<open>A\<close> orders twice on one day,
  customer \<open>B\<close> on two days a month apart, one row has no contact, and the only row of
  customer \<open>Z\<close> has an empty order time.\<close>

definition repurchase_rows :: "order_row list" where
  "repurchase_rows =
     [file_row (Some ''o1'') (Some ''X'') (Some ''B'') (Num 10 ''10'') (Num 5 ''5'') 1 (Some ''N'') (Some 2678400),
      file_row (Some ''o2'') (Some ''X'') (Some ''A'') (Num 10 ''10'') (Num 5 ''5'') 1 (Some ''N'') (Some 3600),
      file_row (Some ''o2'') (Some ''X'') (Some ''A'') (Num 10 ''10'') (Num 5 ''5'') 1 (Some ''N'') (Some 7200),
      file_row (Some ''o3'') (Some ''X'') None (Num 10 ''10'') (Num 5 ''5'') 1 (Some ''N'') (Some 100),
      file_row (Some ''o4'') (Some ''Y'') (Some ''B'') (Num 10 ''10'') (Num 5 ''5'') 1 (Some ''N'') (Some 0),
      file_row (Some ''o5'') (Some ''Y'') (Some ''Z'') (Num 10 ''10'') (Num 5 ''5'') 1 (Some ''N'') None]"

definition repurchase_table :: dataframe where
  "repurchase_table = load_data_dates (file_table repurchase_rows)"

text \<open>A table for the two repurchase rates: at seller \<open>P\<close> one customer has two rows on
  one day; at seller \<open>Q\<close> one customer has two rows on two days; seller \<open>R\<close> has one
  customer with a single row and one with rows on two days.\<close>

definition rates_rows :: "order_row list" where
  "rates_rows =
     [file_row (Some ''o1'') (Some ''P'') (Some ''c1'') (Str ''300'') (Str ''100'') 1 (Some ''N'') (Some 3600),
      file_row (Some ''o1'') (Some ''P'') (Some ''c1'') (Str ''300'') (Str ''100'') 1 (Some ''N'') (Some 7200),
      file_row (Some ''o2'') (Some ''Q'') (Some ''c2'') (Str ''200'') (Str ''100'') 1 (Some ''N'') (Some 0),
      file_row (Some ''o3'') (Some ''Q'') (Some ''c2'') (Str ''200'') (Str ''100'') 1 (Some ''N'') (Some 864000),
      file_row (Some ''o4'') (Some ''R'') (Some ''c3'') (Str ''100'') (Str ''100'') 1 (Some ''N'') (Some 0),
      file_row (Some ''o5'') (Some ''R'') (Some ''c4'') (Str ''100'') (Str ''100'') 1 (Some ''N'') (Some 0),
      file_row (Some ''o6'') (Some ''R'') (Some ''c4'') (Str ''100'') (Str ''100'') 1 (Some ''N'') (Some 172800)]"

section \<open>Definitions used in the proofs\<close>

text \<open>The repurchase count in the words of the specification: the number of distinct
  calendar days on which a contact ordered, and that number minus 1 for a row with a
  contact, 0 for a row without.\<close>

definition distinct_days :: "(order_row \<Rightarrow> int option) \<Rightarrow> order_row list \<Rightarrow> string \<Rightarrow> nat" where
  "distinct_days day rows c = card {d. \<exists>x \<in> set rows. Contact x = Some c \<and> day x = Some d}"

definition repurchases :: "(order_row \<Rightarrow> int option) \<Rightarrow> order_row list \<Rightarrow> order_row \<Rightarrow> int" where
  "repurchases day rows r =
     (case Contact r of None \<Rightarrow> 0 | Some c \<Rightarrow> int (distinct_days day rows c) - 1)"

text \<open>The two repurchase rates of a seller in the words of the claims. The customers of
  the seller are the contacts that occur in the seller's rows. In the first rate a
  customer is repurchasing when the customer's rows for the seller show more than one
  calendar day, in the second when there is more than one such row. The rate is the
  share of repurchasing customers in percent, 0 without customers.\<close>

definition customers_of :: "order_row list \<Rightarrow> string set" where
  "customers_of rs = {c. \<exists>r \<in> set rs. Contact r = Some c}"

definition share :: "string set \<Rightarrow> string set \<Rightarrow> real" where
  "share repurchasing customers =
     (if customers = {} then 0 else real (card repurchasing) / real (card customers) * 100)"

definition rate_by_days :: "(order_row \<Rightarrow> int option) \<Rightarrow> order_row list \<Rightarrow> string \<Rightarrow> real" where
  "rate_by_days day rows s =
     (let rs = filter (\<lambda>r. SellerName r = Some s) rows
      in share {c \<in> customers_of rs. 1 < card {d. \<exists>r \<in> set rs. Contact r = Some c \<and> day r = Some d}}
               (customers_of rs))"

definition rate_by_rows :: "order_row list \<Rightarrow> string \<Rightarrow> real" where
  "rate_by_rows rows s =
     (let rs = filter (\<lambda>r. SellerName r = Some s) rows
      in share {c \<in> customers_of rs. 1 < length (filter (\<lambda>r. Contact r = Some c) rs)}
               (customers_of rs))"

text \<open>The call ends at app.py:99 or app.py:100, before \<open>Margin\<close> is assigned, when
  the supply unit price column exists and the quantity or the paid amount column does
  not.\<close>

definition stops_at_margin :: "dataframe \<Rightarrow> bool" where
  "stops_at_margin df =
     (''SupplyPrice'' \<in> columns df \<and> \<not> (''Qty'' \<in> columns df \<and> ''PaidAmount'' \<in> columns df))"

text \<open>The columns without which the function raises \<open>KeyError\<close>.\<close>

definition required_columns :: "string set" where
  "required_columns = {''SellerName'', ''PaidAmount'', ''OrderNo'', ''Qty''}"

text \<open>What a successful call has made of one row of its argument.\<close>

definition final_row :: "dataframe \<Rightarrow> order_row \<Rightarrow> order_row" where
  "final_row df r =
     (let r1 = (if paid_numeric df then r
                else r\<lparr>PaidNumber := clean_paid_cell (is_object (map PaidAmount (body df))) (PaidAmount r)\<rparr>);
          r2 = (if ''SupplyPrice'' \<in> columns df
                then r1\<lparr>SupplyCost := clean_supply_cell (SupplyPrice r) * Qty r,
                        Margin := PaidNumber r1 - clean_supply_cell (SupplyPrice r) * Qty r\<rparr>
                else r1\<lparr>Margin := 0\<rparr>)
      in r2\<lparr>IsCancelled := (if ''CancelFlag'' \<in> columns df then is_cancelled_of (CancelFlag r) else 0)\<rparr>)"

section \<open>Properties\<close>

lemmas parse_defs = regex_strip_def is_digit_def to_numeric_def strip_ws_def is_space_def
  unsigned_number_def exponent_def digits_val_def digit_val_def pow10_def py_float_def lower_def
  text_to_number_def strip_cell_def

lemmas frame_defs = clean_paid_amount_def add_margin_def add_is_cancelled_def is_cancelled_of_def
  is_object_def clean_paid_cell_def clean_supply_cell_def load_data_dates_def dt_date_def dt_days_def
  seconds_per_day_def file_table_def file_columns_def file_row_def

lemmas summary_defs = calculate_seller_metrics_def summaries_def summary_of_def group_keys_def
  seller_rows_def nunique_def List.map_filter_simps margin_rate_def cancel_rate_def aov_def
  fdiv_def fscale_def fillna0_def repurchase_rate_def value_counts_def days_between_def
  sort_values_desc_def less_eq_list_code less_list_code Let_def

lemma example_summaries:
  "snd (calculate_seller_metrics example_table) =
     Inr [\<lparr>Seller = ''B'', TotalRevenue = 1100, TotalMargin = 800, OrderCount = 1,
            TotalQty = 3, CancelCount = 1, MarginRate = Fin (800 / 11),
            CancelRate = Fin 100, AOV = Fin 1100, RepurchaseRate = 100,
            FirstOrderDate = Some 100000, LastOrderDate = Some 100000,
            TenureDays = Some 1, RecencyDays = Some 2\<rparr>,
          \<lparr>Seller = ''D'', TotalRevenue = 100, TotalMargin = 0, OrderCount = 1,
            TotalQty = 1, CancelCount = 0, MarginRate = Fin 0, CancelRate = Fin 0,
            AOV = Fin 100, RepurchaseRate = 0, FirstOrderDate = Some 300000,
            LastOrderDate = Some 300000, TenureDays = Some 1, RecencyDays = Some 0\<rparr>,
          \<lparr>Seller = ''C'', TotalRevenue = 50, TotalMargin = 50, OrderCount = 0,
            TotalQty = 1, CancelCount = 0, MarginRate = Fin 100, CancelRate = NaN,
            AOV = PInf, RepurchaseRate = 0, FirstOrderDate = Some 200000,
            LastOrderDate = Some 200000, TenureDays = Some 1, RecencyDays = Some 1\<rparr>,
          \<lparr>Seller = ''A'', TotalRevenue = 0, TotalMargin = - 5000, OrderCount = 2,
            TotalQty = 2, CancelCount = 0, MarginRate = NInf, CancelRate = Fin 0,
            AOV = Fin 0, RepurchaseRate = 0, FirstOrderDate = Some 0,
            LastOrderDate = Some 250000, TenureDays = Some 3, RecencyDays = Some 0\<rparr>]"
  by (simp add: example_table_def example_rows_def parse_defs frame_defs summary_defs)

lemma example_body:
  "body example_table =
     map (\<lambda>r. r\<lparr>OrderDate := OrderDay r, Date := map_option dt_date (OrderDay r)\<rparr>) example_rows"
  by (simp add: example_table_def load_data_dates_def file_table_def file_columns_def)

lemma example_columns:
  "columns example_table = insert ''Date'' (insert ''OrderDate'' file_columns)"
  by (simp add: example_table_def load_data_dates_def file_table_def file_columns_def)

lemma example_paid_numeric: "paid_numeric example_table = False"
  by (simp add: example_table_def load_data_dates_def file_table_def file_columns_def)

lemma example_summaries_list:
  "snd (calculate_seller_metrics example_table) = Inr (summaries example_table)"
  by (simp add: summaries_def example_summaries)

lemma example_hd: "hd (summaries example_table) \<in> set (summaries example_table)"
  by (simp add: summaries_def example_summaries)

lemma example_hd_seller: "Seller (hd (summaries example_table)) = ''B''"
  by (simp add: summaries_def example_summaries)

lemma example_nth:
  "summaries example_table ! 1 \<in> set (summaries example_table)"
  "summaries example_table ! 2 \<in> set (summaries example_table)"
  "summaries example_table ! 3 \<in> set (summaries example_table)"
  by (simp_all add: summaries_def example_summaries)

subsection \<open>The shape of a successful call\<close>

lemma calc_ok_iff:
  "(\<exists>xs. snd (calculate_seller_metrics df) = Inr xs) \<longleftrightarrow> required_columns \<subseteq> columns df"
  by (auto simp: calculate_seller_metrics_def add_margin_def clean_paid_amount_def
      add_is_cancelled_def required_columns_def Let_def split: if_splits)

lemma calc_body:
  assumes "required_columns \<subseteq> columns df"
  shows "body (fst (calculate_seller_metrics df)) = map (final_row df) (body df)"
  using assms
  by (auto simp: calculate_seller_metrics_def add_margin_def clean_paid_amount_def
      add_is_cancelled_def required_columns_def final_row_def Let_def)

lemma calc_columns:
  assumes "required_columns \<subseteq> columns df"
  shows "columns (fst (calculate_seller_metrics df)) =
     columns df \<union> {''Margin'', ''IsCancelled''}
       \<union> (if ''SupplyPrice'' \<in> columns df then {''SupplyCost''} else {})"
  using assms
  by (auto simp: calculate_seller_metrics_def add_margin_def clean_paid_amount_def
      add_is_cancelled_def required_columns_def Let_def)

lemma calc_result:
  assumes "required_columns \<subseteq> columns df"
  shows "snd (calculate_seller_metrics df) =
     Inr (sort_values_desc (map (summary_of (fst (calculate_seller_metrics df)))
                                (group_keys (body (fst (calculate_seller_metrics df))))))"
  using assms
  by (auto simp: calculate_seller_metrics_def add_margin_def clean_paid_amount_def
      add_is_cancelled_def required_columns_def Let_def)

lemma final_row_fields [simp]:
  "SellerName (final_row df r) = SellerName r"
  "OrderNo (final_row df r) = OrderNo r"
  "Contact (final_row df r) = Contact r"
  "CancelFlag (final_row df r) = CancelFlag r"
  "OrderDate (final_row df r) = OrderDate r"
  "Qty (final_row df r) = Qty r"
  "IsCancelled (final_row df r) =
     (if ''CancelFlag'' \<in> columns df then is_cancelled_of (CancelFlag r) else 0)"
  by (simp_all add: final_row_def Let_def)

lemma seller_rows_map:
  assumes "\<And>r. SellerName (f r) = SellerName r"
  shows "seller_rows (map f rows) s = map f (seller_rows rows s)"
  by (simp add: seller_rows_def filter_map comp_def assms)

lemma set_map_filter: "set (List.map_filter f xs) = {y. \<exists>x \<in> set xs. f x = Some y}"
  by (induction xs) (auto simp: List.map_filter_simps split: option.splits)

lemma set_map_filter_id: "set (List.map_filter id xs) = {x. Some x \<in> set xs}"
  by (auto simp: set_map_filter)

lemma group_keys_set: "set (group_keys rows) = {k. \<exists>r \<in> set rows. SellerName r = Some k}"
  by (simp add: group_keys_def set_map_filter)

lemma group_keys_map:
  assumes "\<And>r. SellerName (f r) = SellerName r"
  shows "group_keys (map f rows) = group_keys rows"
  by (simp add: group_keys_def List.map_filter_def filter_map comp_def assms)

lemma set_sort_values_desc: "set (sort_values_desc xs) = set xs"
  by (simp add: sort_values_desc_def)

lemma summary_mem:
  assumes "snd (calculate_seller_metrics df) = Inr xs" and "s \<in> set xs"
  shows "\<exists>k. (\<exists>r \<in> set (body df). SellerName r = Some k)
           \<and> s = summary_of (fst (calculate_seller_metrics df)) k"
proof -
  have req: "required_columns \<subseteq> columns df"
    using assms(1) calc_ok_iff by blast
  have "xs = sort_values_desc (map (summary_of (fst (calculate_seller_metrics df)))
                                (group_keys (body (fst (calculate_seller_metrics df)))))"
    using calc_result [OF req] assms(1) by simp
  then have "s \<in> summary_of (fst (calculate_seller_metrics df)) `
                 set (group_keys (map (final_row df) (body df)))"
    using assms(2) by (simp add: set_sort_values_desc calc_body [OF req])
  then show ?thesis
    by (auto simp: group_keys_map group_keys_set)
qed

lemma seller_summary_of [simp]: "Seller (summary_of df k) = k"
  by (simp add: summary_of_def Let_def)

lemma nunique_card: "nunique xs = card {x. Some x \<in> set xs}"
proof -
  have "nunique xs = card (set (List.map_filter id xs))"
    by (simp add: nunique_def length_remdups_card_conv)
  then show ?thesis by (simp add: set_map_filter_id)
qed

subsection \<open>Order count\<close>

text \<open>
  Claim C7. For every seller of the summary, \<open>OrderCount\<close> is the number of distinct
  order ids among the rows of that seller in the table given to the function, not the
  number of those rows: several rows with one order id count once.
\<close>

theorem order_count_distinct:
  assumes "snd (calculate_seller_metrics df) = Inr xs" and "s \<in> set xs"
  shows "OrderCount s =
           card {n. \<exists>r \<in> set (body df). SellerName r = Some (Seller s) \<and> OrderNo r = Some n}"
proof -
  obtain k where s: "s = summary_of (fst (calculate_seller_metrics df)) k"
    using summary_mem [OF assms] by blast
  have req: "required_columns \<subseteq> columns df"
    using assms(1) calc_ok_iff by blast
  have "OrderCount s = nunique (map OrderNo (seller_rows (body df) k))"
    by (simp add: s summary_of_def Let_def calc_body [OF req] seller_rows_map comp_def)
  also have "\<dots> = card {n. \<exists>r \<in> set (body df). SellerName r = Some k \<and> OrderNo r = Some n}"
    unfolding nunique_card
    by (rule arg_cong [where f = card]) (auto simp: seller_rows_def image_iff)
  finally show ?thesis by (simp add: s)
qed

theorem order_count_distinct_witness:
  "snd (calculate_seller_metrics example_table) = Inr (summaries example_table)
   \<and> hd (summaries example_table) \<in> set (summaries example_table)
   \<and> Seller (hd (summaries example_table)) = ''B''
   \<and> length (seller_rows (body example_table) ''B'') = 2
   \<and> OrderCount (hd (summaries example_table)) = card {''o2''}"
proof -
  have "{n. \<exists>r \<in> set (body example_table). SellerName r = Some ''B'' \<and> OrderNo r = Some n} = {''o2''}"
    by (auto simp: example_body example_rows_def file_row_def)
  then have "OrderCount (hd (summaries example_table)) = card {''o2''}"
    using order_count_distinct [OF example_summaries_list example_hd] example_hd_seller by simp
  moreover have "length (seller_rows (body example_table) ''B'') = 2"
    by (simp add: example_body example_rows_def file_row_def seller_rows_def)
  ultimately show ?thesis
    using example_summaries_list example_hd example_hd_seller by simp
qed

subsection \<open>Cancellation count\<close>

text \<open>
  Claim C9. A row counts as cancelled exactly when its cancellation flag is the text
  \<open>Y\<close>: for every seller of the summary, \<open>CancelCount\<close> is the number of the seller's
  rows whose flag is \<open>Y\<close>, so a row with \<open>N\<close>, \<open>y\<close>, an empty or a missing flag
  adds nothing; without the flag column \<open>CancelCount\<close> is 0 for every seller.
\<close>

theorem cancel_count_flag:
  assumes "snd (calculate_seller_metrics df) = Inr xs" and "s \<in> set xs"
  shows "CancelCount s =
           (if ''CancelFlag'' \<in> columns df
            then length (filter (\<lambda>r. SellerName r = Some (Seller s) \<and> CancelFlag r = Some ''Y'')
                                (body df))
            else 0)
         \<and> is_cancelled_of (Some ''Y'') = 1 \<and> is_cancelled_of (Some ''N'') = 0
         \<and> is_cancelled_of (Some ''y'') = 0 \<and> is_cancelled_of (Some []) = 0
         \<and> is_cancelled_of None = 0"
proof -
  obtain k where s: "s = summary_of (fst (calculate_seller_metrics df)) k"
    using summary_mem [OF assms] by blast
  have req: "required_columns \<subseteq> columns df"
    using assms(1) calc_ok_iff by blast
  have count: "sum_list (map (\<lambda>r. is_cancelled_of (CancelFlag r)) rs)
                 = length (filter (\<lambda>r. CancelFlag r = Some ''Y'') rs)" for rs :: "order_row list"
    by (induction rs) (simp_all add: is_cancelled_of_def)
  have "CancelCount s =
          sum_list (map (\<lambda>r. if ''CancelFlag'' \<in> columns df then is_cancelled_of (CancelFlag r) else 0)
                        (seller_rows (body df) k))"
    by (simp add: s summary_of_def Let_def calc_body [OF req] seller_rows_map comp_def)
  then have "CancelCount s =
           (if ''CancelFlag'' \<in> columns df
            then length (filter (\<lambda>r. SellerName r = Some (Seller s) \<and> CancelFlag r = Some ''Y'')
                                (body df))
            else 0)"
    by (simp add: s count seller_rows_def)
  then show ?thesis
    by (simp add: is_cancelled_of_def)
qed

theorem cancel_count_flag_witness:
  "snd (calculate_seller_metrics example_table) = Inr (summaries example_table)
   \<and> hd (summaries example_table) \<in> set (summaries example_table)
   \<and> ''CancelFlag'' \<in> columns example_table
   \<and> map CancelFlag (seller_rows (body example_table) ''B'') = [Some ''N'', Some ''Y'']
   \<and> CancelCount (hd (summaries example_table)) = 1"
proof -
  have c: "''CancelFlag'' \<in> columns example_table"
    by (simp add: example_columns file_columns_def)
  have "length (filter (\<lambda>r. SellerName r = Some ''B'' \<and> CancelFlag r = Some ''Y'')
                       (body example_table)) = 1"
    by (simp add: example_body example_rows_def file_row_def)
  then have "CancelCount (hd (summaries example_table)) = 1"
    using cancel_count_flag [OF example_summaries_list example_hd] example_hd_seller c by simp
  moreover have "map CancelFlag (seller_rows (body example_table) ''B'') = [Some ''N'', Some ''Y'']"
    by (simp add: example_body example_rows_def file_row_def seller_rows_def)
  ultimately show ?thesis
    using example_summaries_list example_hd c by simp
qed

subsection \<open>Margin rate and cancellation rate\<close>

text \<open>
  Claim C1, as the code has it. For every seller of the summary, \<open>MarginRate\<close> is never
  NaN; it is \<open>TotalMargin / TotalRevenue * 100\<close> when \<open>TotalRevenue\<close> is not 0, and it
  is 0 when \<open>TotalMargin\<close> is 0, whatever \<open>TotalRevenue\<close> is. \<open>CancelRate\<close> is
  \<open>CancelCount / OrderCount * 100\<close> when \<open>OrderCount\<close> is not 0, hence 0 when
  \<open>CancelCount\<close> is 0 and \<open>OrderCount\<close> is not.
\<close>

theorem rates_defined:
  assumes "snd (calculate_seller_metrics df) = Inr xs" and "s \<in> set xs"
  shows "MarginRate s \<noteq> NaN
       \<and> (TotalRevenue s \<noteq> 0 \<longrightarrow> MarginRate s = Fin (TotalMargin s / TotalRevenue s * 100))
       \<and> (TotalMargin s = 0 \<longrightarrow> MarginRate s = Fin 0)
       \<and> (OrderCount s \<noteq> 0 \<longrightarrow>
            CancelRate s = Fin (real (CancelCount s) / real (OrderCount s) * 100))
       \<and> (CancelCount s = 0 \<and> OrderCount s \<noteq> 0 \<longrightarrow> CancelRate s = Fin 0)"
proof -
  obtain k where s: "s = summary_of (fst (calculate_seller_metrics df)) k"
    using summary_mem [OF assms] by blast
  show ?thesis
    by (simp add: s summary_of_def Let_def margin_rate_def cancel_rate_def fdiv_def fscale_def
        fillna0_def)
qed

theorem rates_defined_witness:
  "snd (calculate_seller_metrics example_table) = Inr (summaries example_table)
   \<and> hd (summaries example_table) \<in> set (summaries example_table)
   \<and> TotalRevenue (hd (summaries example_table)) = 1100
   \<and> MarginRate (hd (summaries example_table)) = Fin (800 / 1100 * 100)
   \<and> OrderCount (hd (summaries example_table)) = 1
   \<and> CancelRate (hd (summaries example_table)) = Fin (1 / 1 * 100)
   \<and> summaries example_table ! 1 \<in> set (summaries example_table)
   \<and> TotalRevenue (summaries example_table ! 1) = 100
   \<and> TotalMargin (summaries example_table ! 1) = 0
   \<and> MarginRate (summaries example_table ! 1) = Fin 0
   \<and> CancelCount (summaries example_table ! 1) = 0
   \<and> OrderCount (summaries example_table ! 1) = 1
   \<and> CancelRate (summaries example_table ! 1) = Fin 0"
proof -
  have b: "TotalRevenue (hd (summaries example_table)) = 1100"
      "TotalMargin (hd (summaries example_table)) = 800"
      "OrderCount (hd (summaries example_table)) = 1"
      "CancelCount (hd (summaries example_table)) = 1"
    by (simp_all add: summaries_def example_summaries)
  have d: "TotalRevenue (summaries example_table ! 1) = 100"
      "TotalMargin (summaries example_table ! 1) = 0"
      "OrderCount (summaries example_table ! 1) = 1"
      "CancelCount (summaries example_table ! 1) = 0"
    by (simp_all add: summaries_def example_summaries)
  show ?thesis
    using rates_defined [OF example_summaries_list example_hd]
      rates_defined [OF example_summaries_list example_nth(1)]
      example_summaries_list example_hd example_nth(1) b d
    by simp
qed

text \<open>
  The claim as the specification states it fails on the example table: seller \<open>D\<close> has
  revenue 100 and one order, and its margin rate and cancellation rate are 0 although
  neither denominator is 0; seller \<open>A\<close> has revenue 0 and margin -5000, and its margin
  rate is minus infinity; seller \<open>C\<close> has no order id, order count 0, and its
  cancellation rate is NaN.
\<close>

theorem rates_counterexample:
  "snd (calculate_seller_metrics example_table) = Inr (summaries example_table)
   \<and> map Seller (summaries example_table) = [''B'', ''D'', ''C'', ''A'']
   \<and> map TotalRevenue (summaries example_table) = [1100, 100, 50, 0]
   \<and> map TotalMargin (summaries example_table) = [800, 0, 50, - 5000]
   \<and> map MarginRate (summaries example_table) = [Fin (800 / 11), Fin 0, Fin 100, NInf]
   \<and> map OrderCount (summaries example_table) = [1, 1, 0, 2]
   \<and> map CancelCount (summaries example_table) = [1, 0, 0, 0]
   \<and> map CancelRate (summaries example_table) = [Fin 100, Fin 0, NaN, Fin 0]"
  by (simp add: summaries_def example_summaries)

subsection \<open>Repurchase rate of a seller\<close>

lemma count_list_map_filter:
  "count_list (List.map_filter id (map Contact rs)) c = length (filter (\<lambda>r. Contact r = Some c) rs)"
  by (induction rs) (auto simp: List.map_filter_simps split: option.splits)

lemma repurchase_rate_sets:
  "repurchase_rate rs =
     (let customers = {c. \<exists>r \<in> set rs. Contact r = Some c};
          repurchasing = {c \<in> customers. 1 < length (filter (\<lambda>r. Contact r = Some c) rs)}
      in if customers = {} then 0
         else real (card repurchasing) / real (card customers) * 100)"
proof -
  let ?ys = "List.map_filter id (map Contact rs)"
  have set_ys: "set ?ys = {c. \<exists>r \<in> set rs. Contact r = Some c}"
    by (force simp: set_map_filter)
  have total: "length (value_counts (map Contact rs)) = card {c. \<exists>r \<in> set rs. Contact r = Some c}"
    by (simp add: value_counts_def Let_def length_remdups_card_conv set_ys)
  have "length (filter (\<lambda>(c, n). n > 1) (value_counts (map Contact rs)))
          = length (filter (\<lambda>c. 1 < count_list ?ys c) (remdups ?ys))"
    by (simp add: value_counts_def Let_def filter_map comp_def)
  also have "\<dots> = card (set (filter (\<lambda>c. 1 < count_list ?ys c) (remdups ?ys)))"
    by (rule distinct_card [symmetric]) simp
  also have "\<dots> = card {c \<in> {c. \<exists>r \<in> set rs. Contact r = Some c}.
                          1 < length (filter (\<lambda>r. Contact r = Some c) rs)}"
    by (rule arg_cong [where f = card]) (auto simp: set_ys count_list_map_filter)
  finally have re: "length (filter (\<lambda>(c, n). n > 1) (value_counts (map Contact rs)))
       = card {c \<in> {c. \<exists>r \<in> set rs. Contact r = Some c}.
                          1 < length (filter (\<lambda>r. Contact r = Some c) rs)}" .
  have fin: "finite {c. \<exists>r \<in> set rs. Contact r = Some c}"
    using set_ys [symmetric] by simp
  show ?thesis
    unfolding repurchase_rate_def Let_def total re
    using fin by (auto simp: card_gt_0_iff)
qed

lemma summary_repurchase_rate:
  assumes "snd (calculate_seller_metrics df) = Inr xs" and "s \<in> set xs"
  shows "RepurchaseRate s =
          (if ''Contact'' \<in> columns df then repurchase_rate (seller_rows (body df) (Seller s)) else 0)"
proof -
  obtain k where s: "s = summary_of (fst (calculate_seller_metrics df)) k"
    using summary_mem [OF assms] by blast
  have req: "required_columns \<subseteq> columns df"
    using assms(1) calc_ok_iff by blast
  have col: "''Contact'' \<in> columns (fst (calculate_seller_metrics df)) \<longleftrightarrow> ''Contact'' \<in> columns df"
    by (simp add: calc_columns [OF req])
  have same: "repurchase_rate (map (final_row df) rs) = repurchase_rate rs" for rs
    by (simp add: repurchase_rate_def comp_def)
  have "RepurchaseRate s =
          (if ''Contact'' \<in> columns df then repurchase_rate (seller_rows (body df) k) else 0)"
    by (simp add: s summary_of_def Let_def col calc_body [OF req] seller_rows_map same)
  then show ?thesis
    by (simp add: s)
qed

text \<open>
  Claim C3. For every seller of the summary, when the contact column exists, the
  repurchase rate is computed from the rows of that seller only: the customers are the
  contacts that occur in those rows, a customer is repurchasing when more than one of
  those rows carries the contact, and the rate is the number of repurchasing customers
  divided by the number of customers, times 100, or 0 without any customer. Without
  the contact column the rate is 0 for every seller.
\<close>

theorem repurchase_rate_rows:
  assumes "snd (calculate_seller_metrics df) = Inr xs" and "s \<in> set xs"
  shows "RepurchaseRate s =
     (if ''Contact'' \<in> columns df then
        (let rs = filter (\<lambda>r. SellerName r = Some (Seller s)) (body df);
             customers = {c. \<exists>r \<in> set rs. Contact r = Some c};
             repurchasing = {c \<in> customers. 1 < length (filter (\<lambda>r. Contact r = Some c) rs)}
         in if customers = {} then 0
            else real (card repurchasing) / real (card customers) * 100)
      else 0)"
  unfolding summary_repurchase_rate [OF assms]
  by (simp only: repurchase_rate_sets seller_rows_def Let_def)

theorem repurchase_rate_rows_witness:
  "snd (calculate_seller_metrics example_table) = Inr (summaries example_table)
   \<and> hd (summaries example_table) \<in> set (summaries example_table)
   \<and> ''Contact'' \<in> columns example_table
   \<and> map Contact (filter (\<lambda>r. SellerName r = Some ''B'') (body example_table))
        = [Some ''c1'', Some ''c1'']
   \<and> RepurchaseRate (hd (summaries example_table)) = real (card {''c1''}) / real (card {''c1''}) * 100"
proof -
  have c: "''Contact'' \<in> columns example_table"
    by (simp add: example_columns file_columns_def)
  have rows: "filter (\<lambda>r. SellerName r = Some ''B'') (body example_table)
      = [(file_row (Some ''o2'') (Some ''B'') (Some ''c1'') (Str ''100'') (Str ''100'') 1 (Some ''N'') (Some 100000))
           \<lparr>OrderDate := Some 100000, Date := Some (dt_date 100000)\<rparr>,
         (file_row (Some ''o2'') (Some ''B'') (Some ''c1'') (Str ''1,000'') (Str ''100'') 2 (Some ''Y'') (Some 100000))
           \<lparr>OrderDate := Some 100000, Date := Some (dt_date 100000)\<rparr>]"
    by (simp add: example_body example_rows_def file_row_def)
  have cust: "{c. \<exists>r \<in> set (filter (\<lambda>r. SellerName r = Some ''B'') (body example_table)).
                  Contact r = Some c} = {''c1''}"
    unfolding rows by (auto simp: file_row_def)
  have rep: "{c \<in> {''c1''}. 1 < length (filter (\<lambda>r. Contact r = Some c)
                  (filter (\<lambda>r. SellerName r = Some ''B'') (body example_table)))} = {''c1''}"
    unfolding rows by (auto simp: file_row_def)
  have "RepurchaseRate (hd (summaries example_table))
          = real (card {''c1''}) / real (card {''c1''}) * 100"
    using repurchase_rate_rows [OF example_summaries_list example_hd] c
    unfolding example_hd_seller Let_def cust rep by simp
  moreover have "map Contact (filter (\<lambda>r. SellerName r = Some ''B'') (body example_table))
        = [Some ''c1'', Some ''c1'']"
    unfolding rows by (simp add: file_row_def)
  ultimately show ?thesis
    using example_summaries_list example_hd c by simp
qed

subsection \<open>Tenure and recency\<close>

lemma series_min_Min: "xs \<noteq> [] \<Longrightarrow> series_min xs = Some (Min (set xs))"
proof (cases xs)
  case Nil
  then show "xs \<noteq> [] \<Longrightarrow> ?thesis" by simp
next
  case (Cons x ys)
  have "foldl min x ys = fold min ys x"
    by (simp add: foldl_conv_fold min.commute)
  also have "\<dots> = Min (set (x # ys))"
    by (rule Min.set_eq_fold [symmetric])
  finally show ?thesis using Cons by simp
qed

lemma series_max_Max: "xs \<noteq> [] \<Longrightarrow> series_max xs = Some (Max (set xs))"
proof (cases xs)
  case Nil
  then show "xs \<noteq> [] \<Longrightarrow> ?thesis" by simp
next
  case (Cons x ys)
  have "foldl max x ys = fold max ys x"
    by (simp add: foldl_conv_fold max.commute)
  also have "\<dots> = Max (set (x # ys))"
    by (rule Max.set_eq_fold [symmetric])
  finally show ?thesis using Cons by simp
qed

lemma series_of_set:
  assumes "set xs = T"
  shows "series_min xs = (if T = {} then None else Some (Min T))"
    and "series_max xs = (if T = {} then None else Some (Max T))"
  using assms series_min_Min [of xs] series_max_Max [of xs] by (cases xs; auto)+

text \<open>
  Claim C8. When the columns the function cannot do without exist, the call returns a
  summary. With the order time column, \<open>TenureDays\<close> of a seller is the number of
  whole days from the seller's first to the seller's last order time, plus 1, and
  \<open>RecencyDays\<close> is the number of whole days from the seller's last order time to the
  latest order time of the whole table; the first and the last order time are taken
  over the rows that have an order time, and a seller none of whose rows has one has
  no first and no last order time and gets a missing value in both columns. Without
  the order time column both are 0. On a table in which every row has an order time,
  \<open>T\<close> below is the set of the order times of the seller's rows and is not empty.
\<close>

theorem lifecycle_days:
  assumes "required_columns \<subseteq> columns df"
  shows "\<exists>xs. snd (calculate_seller_metrics df) = Inr xs
           \<and> (\<forall>s \<in> set xs.
                 if ''OrderDate'' \<in> columns df then
                   (let T = {t. \<exists>r \<in> set (body df). SellerName r = Some (Seller s) \<and> OrderDate r = Some t};
                        A = {t. \<exists>r \<in> set (body df). OrderDate r = Some t}
                    in if T = {} then TenureDays s = None \<and> RecencyDays s = None
                       else TenureDays s = Some ((Max T - Min T) div 86400 + 1)
                          \<and> RecencyDays s = Some ((Max A - Max T) div 86400))
                 else TenureDays s = Some 0 \<and> RecencyDays s = Some 0)"
proof -
  obtain xs where xs: "snd (calculate_seller_metrics df) = Inr xs"
    using assms calc_ok_iff by blast
  have col: "''OrderDate'' \<in> columns (fst (calculate_seller_metrics df)) \<longleftrightarrow> ''OrderDate'' \<in> columns df"
    by (simp add: calc_columns [OF assms])
  have "if ''OrderDate'' \<in> columns df then
          (let T = {t. \<exists>r \<in> set (body df). SellerName r = Some (Seller s) \<and> OrderDate r = Some t};
               A = {t. \<exists>r \<in> set (body df). OrderDate r = Some t}
           in if T = {} then TenureDays s = None \<and> RecencyDays s = None
              else TenureDays s = Some ((Max T - Min T) div 86400 + 1)
                 \<and> RecencyDays s = Some ((Max A - Max T) div 86400))
        else TenureDays s = Some 0 \<and> RecencyDays s = Some 0" if mem: "s \<in> set xs" for s
  proof -
    obtain k where s: "s = summary_of (fst (calculate_seller_metrics df)) k"
      using summary_mem [OF xs mem] by blast
    have sk: "Seller s = k"
      by (simp add: s)
    define T where "T = {t. \<exists>r \<in> set (body df). SellerName r = Some k \<and> OrderDate r = Some t}"
    define A where "A = {t. \<exists>r \<in> set (body df). OrderDate r = Some t}"
    let ?out = "fst (calculate_seller_metrics df)"
    have T: "set (List.map_filter OrderDate (seller_rows (body ?out) k)) = T"
      unfolding T_def
      by (auto simp: set_map_filter calc_body [OF assms] seller_rows_map seller_rows_def)
    have A: "set (List.map_filter OrderDate (body ?out)) = A"
      unfolding A_def by (auto simp: set_map_filter calc_body [OF assms])
    have sub: "T \<noteq> {} \<Longrightarrow> A \<noteq> {}"
      unfolding T_def A_def by blast
    have "if ''OrderDate'' \<in> columns df then
            (if T = {} then TenureDays s = None \<and> RecencyDays s = None
             else TenureDays s = Some ((Max T - Min T) div 86400 + 1)
                \<and> RecencyDays s = Some ((Max A - Max T) div 86400))
          else TenureDays s = Some 0 \<and> RecencyDays s = Some 0"
      using sub
      by (simp add: s summary_of_def Let_def col series_of_set [OF T] series_of_set [OF A]
          days_between_def dt_days_def seconds_per_day_def)
    then show ?thesis
      unfolding Let_def sk T_def A_def .
  qed
  then show ?thesis using xs by blast
qed

lemma example_required: "required_columns \<subseteq> columns example_table"
  by (simp add: required_columns_def example_columns file_columns_def)

lemma file_table_required: "required_columns \<subseteq> columns (file_table rows)"
  by (simp add: required_columns_def file_table_def file_columns_def)

lemma file_table_sellers:
  "map Seller (summaries (file_table example_rows)) = [''B'', ''D'', ''C'', ''A'']"
  by (simp add: example_rows_def parse_defs frame_defs summary_defs)

lemma map_const: "\<forall>x \<in> set xs. f x = c \<Longrightarrow> map f xs = replicate (length xs) c"
  by (induction xs) simp_all

theorem lifecycle_days_witness:
  "required_columns \<subseteq> columns example_table
   \<and> ''OrderDate'' \<in> columns example_table
   \<and> Seller (summaries example_table ! 3) = ''A''
   \<and> {t. \<exists>r \<in> set (body example_table). SellerName r = Some ''A'' \<and> OrderDate r = Some t}
        = {0, 250000}
   \<and> TenureDays (summaries example_table ! 3) = Some ((250000 - 0) div 86400 + 1)
   \<and> RecencyDays (summaries example_table ! 3) = Some ((300000 - 250000) div 86400)
   \<and> required_columns \<subseteq> columns (file_table example_rows)
   \<and> ''OrderDate'' \<notin> columns (file_table example_rows)
   \<and> map TenureDays (summaries (file_table example_rows)) = [Some 0, Some 0, Some 0, Some 0]
   \<and> map RecencyDays (summaries (file_table example_rows)) = [Some 0, Some 0, Some 0, Some 0]"
proof -
  have d: "''OrderDate'' \<in> columns example_table"
    by (simp add: example_columns)
  have a: "Seller (summaries example_table ! 3) = ''A''"
    by (simp add: summaries_def example_summaries)
  have T: "{t. \<exists>r \<in> set (body example_table). SellerName r = Some ''A'' \<and> OrderDate r = Some t}
             = {0, 250000}"
    by (auto simp: example_body example_rows_def file_row_def)
  have all: "{t. \<exists>r \<in> set (body example_table). OrderDate r = Some t}
               = {0, 100000, 200000, 300000, 250000}"
    by (auto simp: example_body example_rows_def file_row_def)
  obtain xs where xs: "snd (calculate_seller_metrics example_table) = Inr xs"
    and days: "\<forall>s \<in> set xs.
                 if ''OrderDate'' \<in> columns example_table then
                   (let T = {t. \<exists>r \<in> set (body example_table).
                                  SellerName r = Some (Seller s) \<and> OrderDate r = Some t};
                        A = {t. \<exists>r \<in> set (body example_table). OrderDate r = Some t}
                    in if T = {} then TenureDays s = None \<and> RecencyDays s = None
                       else TenureDays s = Some ((Max T - Min T) div 86400 + 1)
                          \<and> RecencyDays s = Some ((Max A - Max T) div 86400))
                 else TenureDays s = Some 0 \<and> RecencyDays s = Some 0"
    using lifecycle_days [OF example_required] by blast
  have "xs = summaries example_table"
    using xs example_summaries_list by simp
  then have mem: "summaries example_table ! 3 \<in> set xs"
    using example_nth(3) by simp
  have one: "TenureDays (summaries example_table ! 3) = Some ((250000 - 0) div 86400 + 1)
      \<and> RecencyDays (summaries example_table ! 3) = Some ((300000 - 250000) div 86400)"
    using bspec [OF days mem] d unfolding a Let_def T all by simp
  have nd: "''OrderDate'' \<notin> columns (file_table example_rows)"
    by (simp add: file_table_def file_columns_def)
  obtain ys where ys: "snd (calculate_seller_metrics (file_table example_rows)) = Inr ys"
    and zero: "\<forall>s \<in> set ys. TenureDays s = Some 0 \<and> RecencyDays s = Some 0"
    using lifecycle_days [OF file_table_required, of example_rows] nd by auto
  have ys': "ys = summaries (file_table example_rows)"
    using ys by (simp add: summaries_def)
  have len: "length (summaries (file_table example_rows)) = 4"
  proof -
    have "length (map Seller (summaries (file_table example_rows))) = 4"
      unfolding file_table_sellers by simp
    then show ?thesis by simp
  qed
  have two: "map TenureDays (summaries (file_table example_rows)) = replicate 4 (Some 0)
      \<and> map RecencyDays (summaries (file_table example_rows)) = replicate 4 (Some 0)"
    using zero len map_const [where f = TenureDays and xs = "summaries (file_table example_rows)" and c = "Some 0"]
      map_const [where f = RecencyDays and xs = "summaries (file_table example_rows)" and c = "Some 0"]
    unfolding ys' by simp
  show ?thesis
    using example_required d a T one file_table_required [of example_rows] nd two
    by (simp add: numeral_eq_Suc)
qed

subsection \<open>Repurchase count of a customer\<close>

lemma mset_filter_split:
  "mset (filter P xs) + mset (filter (\<lambda>x. \<not> P x) xs) = mset xs"
  by (induction xs) simp_all

lemma mset_sort_by_contact: "mset (sort_by_contact d rows) = mset rows"
proof -
  let ?by_day = "sort_key (day_key d) (filter (\<lambda>r. d r \<noteq> None) rows) @ filter (\<lambda>r. d r = None) rows"
  have "mset ?by_day = mset rows"
    using mset_filter_split [of "\<lambda>r. d r \<noteq> None" rows] by simp
  moreover have "mset (sort_by_contact d rows) = mset ?by_day"
    using mset_filter_split [of "\<lambda>r. Contact r \<noteq> None" ?by_day]
    by (simp add: sort_by_contact_def Let_def)
  ultimately show ?thesis by simp
qed

lemma set_sort_by_contact: "set (sort_by_contact d rows) = set rows"
  using mset_sort_by_contact [of d rows] by (rule mset_eq_setD)

lemma nunique_days:
  "nunique (map d (filter (\<lambda>r. Contact r = Some c) rows))
     = card {t. \<exists>x \<in> set rows. Contact x = Some c \<and> d x = Some t}"
  unfolding nunique_card by (rule arg_cong [where f = card]) force

lemma map_counts_card:
  assumes "r \<in> set rows"
  shows "map_counts d rows r = map_option (distinct_days d rows) (Contact r)"
proof (cases "Contact r")
  case None
  then show ?thesis by (simp add: map_counts_def)
next
  case (Some c)
  have "Some c \<in> set (map Contact rows)"
    using assms Some by force
  then show ?thesis
    using Some by (simp add: map_counts_def user_order_counts_def nunique_days distinct_days_def)
qed

lemma distinct_days_sorted:
  "distinct_days d (sort_by_contact d rows) = distinct_days d rows"
  by (rule ext) (simp add: distinct_days_def set_sort_by_contact)

lemma minus_one_fillna_counts:
  "minus_one_fillna (map_option (distinct_days d rows) (Contact r)) = repurchases d rows r"
  by (simp add: minus_one_fillna_def repurchases_def split: option.splits)

lemma finite_days: "finite {t. \<exists>x \<in> set rows. Contact x = Some c \<and> d x = Some t}"
proof -
  have "{t. \<exists>x \<in> set rows. Contact x = Some c \<and> d x = Some t}
          \<subseteq> set (List.map_filter d rows)"
    by (auto simp: set_map_filter)
  then show ?thesis
    by (rule finite_subset) simp
qed

lemma repurchases_nonneg_iff:
  "0 \<le> repurchases d rows r \<longleftrightarrow>
     Contact r = None \<or> (\<exists>x \<in> set rows. Contact x = Contact r \<and> d x \<noteq> None)"
proof (cases "Contact r")
  case None
  then show ?thesis by (simp add: repurchases_def)
next
  case (Some c)
  let ?D = "{t. \<exists>x \<in> set rows. Contact x = Some c \<and> d x = Some t}"
  have "0 \<le> repurchases d rows r \<longleftrightarrow> 0 < card ?D"
    using Some by (auto simp: repurchases_def distinct_days_def)
  also have "\<dots> \<longleftrightarrow> ?D \<noteq> {}"
    using finite_days [of rows c d] by (simp add: card_gt_0_iff)
  also have "\<dots> \<longleftrightarrow> (\<exists>x \<in> set rows. Contact x = Some c \<and> d x \<noteq> None)"
    by auto
  finally show ?thesis
    using Some by simp
qed

lemma distinct_days_map:
  assumes "\<And>x. Contact (f x) = Contact x" and "\<And>x. d' (f x) = d x"
  shows "distinct_days d' (map f rows) c = distinct_days d rows c"
proof -
  have "{t. \<exists>x \<in> set (map f rows). Contact x = Some c \<and> d' x = Some t}
          = {t. \<exists>x \<in> set rows. Contact x = Some c \<and> d x = Some t}"
    by (auto simp: assms)
  then show ?thesis
    by (simp add: distinct_days_def)
qed

text \<open>
  Claim C2, as the code has it. Both annotators (the block of \<open>load_data\<close> in app.py
  and \<open>calculate_repurchase\<close> in eda_script.py) keep every row of the table and attach
  to it the number of distinct calendar days among the rows of the row's contact, rows
  without an order time not counted, minus 1; a row without contact gets 0. Same-day
  rows count once and a contact with one day gets 0, since the number is that of a set
  of days. The value is not negative exactly when the row has no contact or some row of
  its contact has an order time.
\<close>

theorem repurchase_count_distinct_days:
  "(''Contact'' \<in> columns df \<and> ''OrderDate'' \<in> columns df \<and> ''Date'' \<in> columns df \<longrightarrow>
      (\<exists>df'. load_data_repurchase df = Inr df'
         \<and> mset (body df') =
             mset (map (\<lambda>r. r\<lparr>UserTotalOrders := map_option (distinct_days Date (body df)) (Contact r),
                                 RepurchaseCount := repurchases Date (body df) r\<rparr>) (body df))
         \<and> (\<forall>r \<in> set (body df').
               RepurchaseCount r = repurchases Date (body df) r
               \<and> (0 \<le> RepurchaseCount r \<longleftrightarrow>
                    Contact r = None \<or> (\<exists>x \<in> set (body df). Contact x = Contact r \<and> Date x \<noteq> None)))))
   \<and> (''Contact'' \<in> columns df \<and> ''OrderDay'' \<in> columns df \<longrightarrow>
        mset (body (calculate_repurchase df)) =
          mset (map (\<lambda>r. r\<lparr>OrderDate := map_option dt_date (OrderDay r),
                              UserTotalOrders :=
                                map_option (distinct_days (\<lambda>x. map_option dt_date (OrderDay x)) (body df))
                                           (Contact r),
                              RepurchaseTimes :=
                                repurchases (\<lambda>x. map_option dt_date (OrderDay x)) (body df) r\<rparr>) (body df))
        \<and> (\<forall>r \<in> set (body (calculate_repurchase df)).
              RepurchaseTimes r = repurchases (\<lambda>x. map_option dt_date (OrderDay x)) (body df) r
              \<and> (0 \<le> RepurchaseTimes r \<longleftrightarrow>
                   Contact r = None \<or> (\<exists>x \<in> set (body df). Contact x = Contact r \<and> OrderDay x \<noteq> None))))"
proof (intro conjI impI)
  assume cols: "''Contact'' \<in> columns df \<and> ''OrderDate'' \<in> columns df \<and> ''Date'' \<in> columns df"
  let ?rows = "sort_by_contact Date (body df)"
  let ?ann = "\<lambda>r. r\<lparr>UserTotalOrders := map_option (distinct_days Date (body df)) (Contact r),
                      RepurchaseCount := repurchases Date (body df) r\<rparr>"
  let ?df' = "df\<lparr>columns := insert ''RepurchaseCount'' (insert ''UserTotalOrders'' (columns df)),
                  body := map (\<lambda>r. r\<lparr>UserTotalOrders := map_counts Date ?rows r,
                                       RepurchaseCount := minus_one_fillna (map_counts Date ?rows r)\<rparr>) ?rows\<rparr>"
  have run: "load_data_repurchase df = Inr ?df'"
    using cols by (simp add: load_data_repurchase_def Let_def)
  have same: "map_counts Date ?rows r = map_option (distinct_days Date (body df)) (Contact r)"
       "minus_one_fillna (map_counts Date ?rows r) = repurchases Date (body df) r"
    if "r \<in> set ?rows" for r
    using that
    by (simp_all add: map_counts_card distinct_days_sorted minus_one_fillna_counts)
  have body: "body ?df' = map ?ann ?rows"
    using same by simp
  have m: "mset (body ?df') = mset (map ?ann (body df))"
    unfolding body by (simp add: mset_sort_by_contact)
  have "RepurchaseCount r = repurchases Date (body df) r
        \<and> (0 \<le> RepurchaseCount r \<longleftrightarrow>
              Contact r = None \<or> (\<exists>x \<in> set (body df). Contact x = Contact r \<and> Date x \<noteq> None))"
    if mem: "r \<in> set (body ?df')" for r
  proof -
    obtain r0 where r0: "r0 \<in> set (body df)" "r = ?ann r0"
      using mem unfolding body by (auto simp: set_sort_by_contact)
    have "repurchases Date (body df) r = repurchases Date (body df) r0"
      by (simp add: r0(2) repurchases_def)
    then show ?thesis
      using repurchases_nonneg_iff [of Date "body df" r0] by (simp add: r0(2))
  qed
  then show "\<exists>df'. load_data_repurchase df = Inr df'
         \<and> mset (body df') = mset (map ?ann (body df))
         \<and> (\<forall>r \<in> set (body df').
               RepurchaseCount r = repurchases Date (body df) r
               \<and> (0 \<le> RepurchaseCount r \<longleftrightarrow>
                    Contact r = None \<or> (\<exists>x \<in> set (body df). Contact x = Contact r \<and> Date x \<noteq> None)))"
    using run m by blast
next
  assume cols: "''Contact'' \<in> columns df \<and> ''OrderDay'' \<in> columns df"
  let ?d = "\<lambda>x. map_option dt_date (OrderDay x)"
  let ?f = "\<lambda>r. r\<lparr>OrderDate := map_option dt_date (OrderDay r)\<rparr>"
  let ?dated = "map ?f (body df)"
  let ?rows = "sort_by_contact OrderDate ?dated"
  let ?ann = "\<lambda>r. r\<lparr>OrderDate := map_option dt_date (OrderDay r),
                      UserTotalOrders := map_option (distinct_days ?d (body df)) (Contact r),
                      RepurchaseTimes := repurchases ?d (body df) r\<rparr>"
  have days: "distinct_days OrderDate ?dated c = distinct_days ?d (body df) c" for c
    by (rule distinct_days_map) simp_all
  have run: "body (calculate_repurchase df) =
               map (\<lambda>r. r\<lparr>UserTotalOrders := map_counts OrderDate ?rows r,
                           RepurchaseTimes := minus_one_fillna (map_counts OrderDate ?rows r)\<rparr>) ?rows"
    using cols by (simp add: calculate_repurchase_def Let_def)
  have same: "r\<lparr>UserTotalOrders := map_counts OrderDate ?rows r,
                 RepurchaseTimes := minus_one_fillna (map_counts OrderDate ?rows r)\<rparr>
              = r\<lparr>UserTotalOrders := map_option (distinct_days ?d (body df)) (Contact r),
                   RepurchaseTimes := repurchases ?d (body df) r\<rparr>"
    if "r \<in> set ?rows" for r
  proof -
    have "map_counts OrderDate ?rows r = map_option (distinct_days OrderDate ?dated) (Contact r)"
      using that by (simp add: map_counts_card distinct_days_sorted)
    moreover have "map_option (distinct_days OrderDate ?dated) (Contact r)
                     = map_option (distinct_days ?d (body df)) (Contact r)"
      using days by (cases "Contact r") simp_all
    ultimately show ?thesis
      by (simp add: minus_one_fillna_counts)
  qed
  have body: "body (calculate_repurchase df) =
                map (\<lambda>r. r\<lparr>UserTotalOrders := map_option (distinct_days ?d (body df)) (Contact r),
                            RepurchaseTimes := repurchases ?d (body df) r\<rparr>) ?rows"
    unfolding run using same by simp
  have "mset (body (calculate_repurchase df)) =
          mset (map (\<lambda>r. r\<lparr>UserTotalOrders := map_option (distinct_days ?d (body df)) (Contact r),
                            RepurchaseTimes := repurchases ?d (body df) r\<rparr>) ?dated)"
    unfolding body by (simp only: mset_map mset_sort_by_contact)
  also have "\<dots> = mset (map ?ann (body df))"
    by (simp add: comp_def repurchases_def)
  finally show "mset (body (calculate_repurchase df)) = mset (map ?ann (body df))" .
  then have sets: "set (body (calculate_repurchase df)) = set (map ?ann (body df))"
    by (rule mset_eq_setD)
  have "RepurchaseTimes r = repurchases ?d (body df) r
        \<and> (0 \<le> RepurchaseTimes r \<longleftrightarrow>
             Contact r = None \<or> (\<exists>x \<in> set (body df). Contact x = Contact r \<and> OrderDay x \<noteq> None))"
    if mem: "r \<in> set (body (calculate_repurchase df))" for r
  proof -
    obtain r0 where r0: "r0 \<in> set (body df)" "r = ?ann r0"
      using mem unfolding sets by auto
    have "repurchases ?d (body df) r = repurchases ?d (body df) r0"
      by (simp add: r0(2) repurchases_def)
    then show ?thesis
      using repurchases_nonneg_iff [of ?d "body df" r0] by (simp add: r0(2))
  qed
  then show "\<forall>r \<in> set (body (calculate_repurchase df)).
              RepurchaseTimes r = repurchases ?d (body df) r
              \<and> (0 \<le> RepurchaseTimes r \<longleftrightarrow>
                   Contact r = None \<or> (\<exists>x \<in> set (body df). Contact x = Contact r \<and> OrderDay x \<noteq> None))"
    by blast
qed

lemmas repurchase_defs = load_data_repurchase_def calculate_repurchase_def sort_by_contact_def
  contact_key_def day_key_def map_counts_def user_order_counts_def minus_one_fillna_def
  repurchase_table_def repurchase_rows_def annotated_def nunique_def List.map_filter_simps

lemma repurchase_eval:
  "map Contact (annotated repurchase_table)
     = [Some ''A'', Some ''A'', Some ''B'', Some ''B'', Some ''Z'', None]"
  "map RepurchaseCount (annotated repurchase_table) = [0, 0, 1, 1, - 1, 0]"
  "map RepurchaseTimes (body (calculate_repurchase (file_table repurchase_rows))) = [0, 0, 1, 1, - 1, 0]"
  by (simp_all add: repurchase_defs frame_defs less_eq_list_code less_list_code Let_def)

lemma repurchase_table_columns:
  "''Contact'' \<in> columns repurchase_table \<and> ''OrderDate'' \<in> columns repurchase_table
   \<and> ''Date'' \<in> columns repurchase_table"
  "''Contact'' \<in> columns (file_table repurchase_rows)
   \<and> ''OrderDay'' \<in> columns (file_table repurchase_rows)"
  by (simp_all add: repurchase_table_def load_data_dates_def file_table_def file_columns_def)

theorem repurchase_count_distinct_days_witness:
  "''Contact'' \<in> columns repurchase_table \<and> ''OrderDate'' \<in> columns repurchase_table
   \<and> ''Date'' \<in> columns repurchase_table
   \<and> map Contact (annotated repurchase_table)
        = [Some ''A'', Some ''A'', Some ''B'', Some ''B'', Some ''Z'', None]
   \<and> map RepurchaseCount (annotated repurchase_table) = [0, 0, 1, 1, - 1, 0]
   \<and> map (repurchases Date (body repurchase_table)) (annotated repurchase_table)
        = [0, 0, 1, 1, - 1, 0]
   \<and> ''Contact'' \<in> columns (file_table repurchase_rows)
   \<and> ''OrderDay'' \<in> columns (file_table repurchase_rows)
   \<and> map RepurchaseTimes (body (calculate_repurchase (file_table repurchase_rows)))
        = [0, 0, 1, 1, - 1, 0]
   \<and> map (repurchases (\<lambda>x. map_option dt_date (OrderDay x)) repurchase_rows)
          (body (calculate_repurchase (file_table repurchase_rows)))
        = [0, 0, 1, 1, - 1, 0]"
proof -
  obtain df' where run: "load_data_repurchase repurchase_table = Inr df'"
    and all: "\<forall>r \<in> set (body df'). RepurchaseCount r = repurchases Date (body repurchase_table) r"
    using repurchase_count_distinct_days [of repurchase_table] repurchase_table_columns(1)
    by blast
  have ann: "annotated repurchase_table = body df'"
    by (simp add: annotated_def run)
  have "map (repurchases Date (body repurchase_table)) (annotated repurchase_table)
          = map RepurchaseCount (annotated repurchase_table)"
    unfolding ann using all by simp
  then have one: "map (repurchases Date (body repurchase_table)) (annotated repurchase_table)
                    = [0, 0, 1, 1, - 1, 0]"
    by (simp only: repurchase_eval(2))
  have "\<forall>r \<in> set (body (calculate_repurchase (file_table repurchase_rows))).
          RepurchaseTimes r = repurchases (\<lambda>x. map_option dt_date (OrderDay x))
                                (body (file_table repurchase_rows)) r"
    using repurchase_count_distinct_days [of "file_table repurchase_rows"]
      repurchase_table_columns(2)
    by blast
  then have "map (repurchases (\<lambda>x. map_option dt_date (OrderDay x)) repurchase_rows)
               (body (calculate_repurchase (file_table repurchase_rows)))
             = map RepurchaseTimes (body (calculate_repurchase (file_table repurchase_rows)))"
    by (simp add: file_table_def)
  then have two: "map (repurchases (\<lambda>x. map_option dt_date (OrderDay x)) repurchase_rows)
               (body (calculate_repurchase (file_table repurchase_rows))) = [0, 0, 1, 1, - 1, 0]"
    by (simp only: repurchase_eval(3))
  show ?thesis
    using repurchase_table_columns repurchase_eval one two by simp
qed

text \<open>
  The claim as the specification states it (the count is never negative) fails on the
  table of the example: the only row of customer \<open>Z\<close> has no order time, the customer
  has no calendar day, and both annotators give the row the count -1.
\<close>

theorem repurchase_count_counterexample:
  "map Contact repurchase_rows
     = [Some ''B'', Some ''A'', Some ''A'', None, Some ''B'', Some ''Z'']
   \<and> map OrderDay repurchase_rows
     = [Some 2678400, Some 3600, Some 7200, Some 100, Some 0, None]
   \<and> map Contact (annotated repurchase_table)
     = [Some ''A'', Some ''A'', Some ''B'', Some ''B'', Some ''Z'', None]
   \<and> map RepurchaseCount (annotated repurchase_table) = [0, 0, 1, 1, - 1, 0]
   \<and> map Contact (body (calculate_repurchase (file_table repurchase_rows)))
     = [Some ''A'', Some ''A'', Some ''B'', Some ''B'', Some ''Z'', None]
   \<and> map RepurchaseTimes (body (calculate_repurchase (file_table repurchase_rows)))
     = [0, 0, 1, 1, - 1, 0]"
  by (simp add: repurchase_defs frame_defs less_eq_list_code less_list_code Let_def)

subsection \<open>What the aggregator does to its argument\<close>

lemma clean_paid_amount_frame:
  "columns (clean_paid_amount df) = columns df"
  "map OrderNo (body (clean_paid_amount df)) = map OrderNo (body df)"
  "map SellerName (body (clean_paid_amount df)) = map SellerName (body df)"
  "map Contact (body (clean_paid_amount df)) = map Contact (body df)"
  "map PaidAmount (body (clean_paid_amount df)) = map PaidAmount (body df)"
  "map SupplyPrice (body (clean_paid_amount df)) = map SupplyPrice (body df)"
  "map Qty (body (clean_paid_amount df)) = map Qty (body df)"
  "map CancelFlag (body (clean_paid_amount df)) = map CancelFlag (body df)"
  "map OrderDay (body (clean_paid_amount df)) = map OrderDay (body df)"
  "map OrderDate (body (clean_paid_amount df)) = map OrderDate (body df)"
  "map Date (body (clean_paid_amount df)) = map Date (body df)"
  "map UserTotalOrders (body (clean_paid_amount df)) = map UserTotalOrders (body df)"
  "map RepurchaseCount (body (clean_paid_amount df)) = map RepurchaseCount (body df)"
  "map RepurchaseTimes (body (clean_paid_amount df)) = map RepurchaseTimes (body df)"
  "map SupplyCost (body (clean_paid_amount df)) = map SupplyCost (body df)"
  "map Margin (body (clean_paid_amount df)) = map Margin (body df)"
  "map IsCancelled (body (clean_paid_amount df)) = map IsCancelled (body df)"
  by (simp_all add: clean_paid_amount_def Let_def comp_def)

lemma add_margin_frame:
  "paid_numeric (fst (add_margin df)) = paid_numeric df"
  "map PaidNumber (body (fst (add_margin df))) = map PaidNumber (body df)"
  "map IsCancelled (body (fst (add_margin df))) = map IsCancelled (body df)"
  "map OrderNo (body (fst (add_margin df))) = map OrderNo (body df)"
  "map SellerName (body (fst (add_margin df))) = map SellerName (body df)"
  "map Contact (body (fst (add_margin df))) = map Contact (body df)"
  "map PaidAmount (body (fst (add_margin df))) = map PaidAmount (body df)"
  "map SupplyPrice (body (fst (add_margin df))) = map SupplyPrice (body df)"
  "map Qty (body (fst (add_margin df))) = map Qty (body df)"
  "map CancelFlag (body (fst (add_margin df))) = map CancelFlag (body df)"
  "map OrderDay (body (fst (add_margin df))) = map OrderDay (body df)"
  "map OrderDate (body (fst (add_margin df))) = map OrderDate (body df)"
  "map Date (body (fst (add_margin df))) = map Date (body df)"
  "map UserTotalOrders (body (fst (add_margin df))) = map UserTotalOrders (body df)"
  "map RepurchaseCount (body (fst (add_margin df))) = map RepurchaseCount (body df)"
  "map RepurchaseTimes (body (fst (add_margin df))) = map RepurchaseTimes (body df)"
  by (auto simp: add_margin_def Let_def comp_def)

lemma add_is_cancelled_frame:
  "columns (add_is_cancelled df) = insert ''IsCancelled'' (columns df)"
  "paid_numeric (add_is_cancelled df) = paid_numeric df"
  "map PaidNumber (body (add_is_cancelled df)) = map PaidNumber (body df)"
  "map SupplyCost (body (add_is_cancelled df)) = map SupplyCost (body df)"
  "map Margin (body (add_is_cancelled df)) = map Margin (body df)"
  "map OrderNo (body (add_is_cancelled df)) = map OrderNo (body df)"
  "map SellerName (body (add_is_cancelled df)) = map SellerName (body df)"
  "map Contact (body (add_is_cancelled df)) = map Contact (body df)"
  "map PaidAmount (body (add_is_cancelled df)) = map PaidAmount (body df)"
  "map SupplyPrice (body (add_is_cancelled df)) = map SupplyPrice (body df)"
  "map Qty (body (add_is_cancelled df)) = map Qty (body df)"
  "map CancelFlag (body (add_is_cancelled df)) = map CancelFlag (body df)"
  "map OrderDay (body (add_is_cancelled df)) = map OrderDay (body df)"
  "map OrderDate (body (add_is_cancelled df)) = map OrderDate (body df)"
  "map Date (body (add_is_cancelled df)) = map Date (body df)"
  "map UserTotalOrders (body (add_is_cancelled df)) = map UserTotalOrders (body df)"
  "map RepurchaseCount (body (add_is_cancelled df)) = map RepurchaseCount (body df)"
  "map RepurchaseTimes (body (add_is_cancelled df)) = map RepurchaseTimes (body df)"
  by (simp_all add: add_is_cancelled_def comp_def)

lemma calc_fst:
  "fst (calculate_seller_metrics df) =
     (case snd (add_margin (clean_paid_amount df)) of
        Some e \<Rightarrow> fst (add_margin (clean_paid_amount df))
      | None \<Rightarrow> add_is_cancelled (fst (add_margin (clean_paid_amount df))))"
  by (simp add: calculate_seller_metrics_def Let_def split: prod.splits option.splits)

lemma add_margin_stops:
  "snd (add_margin (clean_paid_amount df)) = (if stops_at_margin df then Some KeyError else None)"
  by (simp add: add_margin_def stops_at_margin_def clean_paid_amount_frame(1) Let_def)

lemma calc_fst_cases:
  "fst (calculate_seller_metrics df) =
     (if stops_at_margin df then fst (add_margin (clean_paid_amount df))
      else add_is_cancelled (fst (add_margin (clean_paid_amount df))))"
  by (simp add: calc_fst add_margin_stops)

lemma add_margin_columns:
  "columns (fst (add_margin df)) =
     columns df
       \<union> (if ''SupplyPrice'' \<in> columns df \<and> ''Qty'' \<in> columns df then {''SupplyCost''} else {})
       \<union> (if stops_at_margin df then {} else {''Margin''})"
  by (auto simp: add_margin_def stops_at_margin_def Let_def)

lemma stops_at_margin_clean: "stops_at_margin (clean_paid_amount df) = stops_at_margin df"
  by (simp add: stops_at_margin_def clean_paid_amount_frame(1))

lemma add_margin_SupplyCost:
  "map SupplyCost (body (fst (add_margin df))) =
     (if ''SupplyPrice'' \<in> columns df \<and> ''Qty'' \<in> columns df
      then map (\<lambda>r. clean_supply_cell (SupplyPrice r) * Qty r) (body df)
      else map SupplyCost (body df))"
  by (auto simp: add_margin_def Let_def comp_def)

lemma add_margin_Margin:
  "map Margin (body (fst (add_margin df))) =
     (if stops_at_margin df then map Margin (body df)
      else if ''SupplyPrice'' \<in> columns df
        then map (\<lambda>r. PaidNumber r - SupplyCost r) (body (fst (add_margin df)))
        else map (\<lambda>r. 0) (body df))"
  by (auto simp: add_margin_def stops_at_margin_def Let_def comp_def)

lemma clean_paid_amount_numbers:
  "paid_numeric (clean_paid_amount df) = (paid_numeric df \<or> ''PaidAmount'' \<in> columns df)"
  "map PaidNumber (body (clean_paid_amount df)) =
     (if ''PaidAmount'' \<in> columns df \<and> \<not> paid_numeric df
      then map (\<lambda>r. clean_paid_cell (is_object (map PaidAmount (body df))) (PaidAmount r)) (body df)
      else map PaidNumber (body df))"
  by (auto simp: clean_paid_amount_def Let_def comp_def)

lemma calc_frame_columns:
  "columns (fst (calculate_seller_metrics df)) =
     columns df
       \<union> (if ''SupplyPrice'' \<in> columns df \<and> ''Qty'' \<in> columns df then {''SupplyCost''} else {})
       \<union> (if stops_at_margin df then {} else {''Margin'', ''IsCancelled''})"
  by (auto simp: calc_fst_cases add_is_cancelled_frame(1) add_margin_columns stops_at_margin_clean
      clean_paid_amount_frame(1))

lemma calc_frame_paid_numeric:
  "paid_numeric (fst (calculate_seller_metrics df)) = (paid_numeric df \<or> ''PaidAmount'' \<in> columns df)"
  by (simp add: calc_fst_cases add_is_cancelled_frame(2) add_margin_frame(1) clean_paid_amount_numbers(1))

lemma calc_frame_PaidNumber:
  "map PaidNumber (body (fst (calculate_seller_metrics df))) =
     (if ''PaidAmount'' \<in> columns df \<and> \<not> paid_numeric df
      then map (\<lambda>r. clean_paid_cell (is_object (map PaidAmount (body df))) (PaidAmount r)) (body df)
      else map PaidNumber (body df))"
  by (simp add: calc_fst_cases add_is_cancelled_frame(3) add_margin_frame(2) clean_paid_amount_numbers(2))

lemma calc_frame_SupplyCost:
  "map SupplyCost (body (fst (calculate_seller_metrics df))) =
     (if ''SupplyPrice'' \<in> columns df \<and> ''Qty'' \<in> columns df
      then map (\<lambda>r. clean_supply_cell (SupplyPrice r) * Qty r) (body df)
      else map SupplyCost (body df))"
proof -
  have "map (\<lambda>r. clean_supply_cell (SupplyPrice r) * Qty r) (body (clean_paid_amount df))
          = map (\<lambda>r. clean_supply_cell (SupplyPrice r) * Qty r) (body df)"
    by (simp add: clean_paid_amount_def Let_def comp_def)
  then show ?thesis
    by (simp add: calc_fst_cases add_is_cancelled_frame(4) add_margin_SupplyCost
        clean_paid_amount_frame)
qed

lemma calc_frame_Margin:
  "map Margin (body (fst (calculate_seller_metrics df))) =
     (if stops_at_margin df then map Margin (body df)
      else if ''SupplyPrice'' \<in> columns df
        then map (\<lambda>r. PaidNumber r - SupplyCost r) (body (fst (calculate_seller_metrics df)))
        else map (\<lambda>r. 0) (body df))"
proof -
  let ?m = "fst (add_margin (clean_paid_amount df))"
  have len: "map (\<lambda>r. 0::real) (body (clean_paid_amount df)) = map (\<lambda>r. 0) (body df)"
    by (simp add: clean_paid_amount_def Let_def comp_def)
  have same: "map (\<lambda>r. PaidNumber r - SupplyCost r) (body (add_is_cancelled ?m))
                = map (\<lambda>r. PaidNumber r - SupplyCost r) (body ?m)"
    by (simp add: add_is_cancelled_def comp_def)
  show ?thesis
    using add_margin_Margin [of "clean_paid_amount df"]
    by (simp add: calc_fst_cases add_is_cancelled_frame(5) stops_at_margin_clean
        clean_paid_amount_frame len same)
qed

lemma calc_frame_IsCancelled:
  "map IsCancelled (body (fst (calculate_seller_metrics df))) =
     (if stops_at_margin df then map IsCancelled (body df)
      else if ''CancelFlag'' \<in> columns df then map (\<lambda>r. is_cancelled_of (CancelFlag r)) (body df)
      else map (\<lambda>r. 0) (body df))"
proof -
  let ?m = "fst (add_margin (clean_paid_amount df))"
  have cols: "''CancelFlag'' \<in> columns ?m \<longleftrightarrow> ''CancelFlag'' \<in> columns df"
    by (simp add: add_margin_columns clean_paid_amount_frame(1))
  have "map IsCancelled (body (add_is_cancelled ?m)) =
          (if ''CancelFlag'' \<in> columns df then map (\<lambda>r. is_cancelled_of r) (map CancelFlag (body ?m))
           else map (\<lambda>r. 0) (map CancelFlag (body ?m)))"
    by (simp add: add_is_cancelled_def comp_def cols)
  then have "map IsCancelled (body (add_is_cancelled ?m)) =
          (if ''CancelFlag'' \<in> columns df then map (\<lambda>r. is_cancelled_of r) (map CancelFlag (body df))
           else map (\<lambda>r. 0) (map CancelFlag (body df)))"
    by (simp only: add_margin_frame clean_paid_amount_frame)
  then show ?thesis
    by (simp add: calc_fst_cases add_margin_frame(3) clean_paid_amount_frame comp_def)
qed

lemma calc_frame_OrderNo:
  "map OrderNo (body (fst (calculate_seller_metrics df))) = map OrderNo (body df)"
  by (simp add: calc_fst_cases add_is_cancelled_frame add_margin_frame clean_paid_amount_frame)

lemma calc_frame_SellerName:
  "map SellerName (body (fst (calculate_seller_metrics df))) = map SellerName (body df)"
  by (simp add: calc_fst_cases add_is_cancelled_frame add_margin_frame clean_paid_amount_frame)

lemma calc_frame_Contact:
  "map Contact (body (fst (calculate_seller_metrics df))) = map Contact (body df)"
  by (simp add: calc_fst_cases add_is_cancelled_frame add_margin_frame clean_paid_amount_frame)

lemma calc_frame_SupplyPrice:
  "map SupplyPrice (body (fst (calculate_seller_metrics df))) = map SupplyPrice (body df)"
  by (simp add: calc_fst_cases add_is_cancelled_frame add_margin_frame clean_paid_amount_frame)

lemma calc_frame_Qty:
  "map Qty (body (fst (calculate_seller_metrics df))) = map Qty (body df)"
  by (simp add: calc_fst_cases add_is_cancelled_frame add_margin_frame clean_paid_amount_frame)

lemma calc_frame_CancelFlag:
  "map CancelFlag (body (fst (calculate_seller_metrics df))) = map CancelFlag (body df)"
  by (simp add: calc_fst_cases add_is_cancelled_frame add_margin_frame clean_paid_amount_frame)

lemma calc_frame_OrderDay:
  "map OrderDay (body (fst (calculate_seller_metrics df))) = map OrderDay (body df)"
  by (simp add: calc_fst_cases add_is_cancelled_frame add_margin_frame clean_paid_amount_frame)

lemma calc_frame_OrderDate:
  "map OrderDate (body (fst (calculate_seller_metrics df))) = map OrderDate (body df)"
  by (simp add: calc_fst_cases add_is_cancelled_frame add_margin_frame clean_paid_amount_frame)

lemma calc_frame_Date:
  "map Date (body (fst (calculate_seller_metrics df))) = map Date (body df)"
  by (simp add: calc_fst_cases add_is_cancelled_frame add_margin_frame clean_paid_amount_frame)

lemma calc_frame_UserTotalOrders:
  "map UserTotalOrders (body (fst (calculate_seller_metrics df))) = map UserTotalOrders (body df)"
  by (simp add: calc_fst_cases add_is_cancelled_frame add_margin_frame clean_paid_amount_frame)

lemma calc_frame_RepurchaseCount:
  "map RepurchaseCount (body (fst (calculate_seller_metrics df))) = map RepurchaseCount (body df)"
  by (simp add: calc_fst_cases add_is_cancelled_frame add_margin_frame clean_paid_amount_frame)

lemma calc_frame_RepurchaseTimes:
  "map RepurchaseTimes (body (fst (calculate_seller_metrics df))) = map RepurchaseTimes (body df)"
  by (simp add: calc_fst_cases add_is_cancelled_frame add_margin_frame clean_paid_amount_frame)

text \<open>
  Claim C5, as the code has it. When its body runs, the function assigns into the table
  it is given. It makes the paid amount column, when there is one, a column of numbers:
  the cleaned cells, or the column as it was when it already was one of numbers. With
  the supply unit price and the quantity column it adds \<open>SupplyCost\<close>, the cleaned
  supply unit price times the quantity. Unless the call ends at that point (the supply
  unit price column exists and the quantity or the paid amount column does not), it
  adds \<open>Margin\<close>, the paid amount minus \<open>SupplyCost\<close> with the supply unit price column
  and 0 without, and \<open>IsCancelled\<close>, 1 for the flag \<open>Y\<close> and 0 otherwise. It removes
  no column, adds no other column, keeps the rows in number and order and leaves every
  other column as it was.
\<close>

theorem metrics_frame:
  "columns (fst (calculate_seller_metrics df)) =
     columns df
       \<union> (if ''SupplyPrice'' \<in> columns df \<and> ''Qty'' \<in> columns df then {''SupplyCost''} else {})
       \<union> (if stops_at_margin df then {} else {''Margin'', ''IsCancelled''})
   \<and> paid_numeric (fst (calculate_seller_metrics df)) = (paid_numeric df \<or> ''PaidAmount'' \<in> columns df)
   \<and> map PaidNumber (body (fst (calculate_seller_metrics df))) =
        (if ''PaidAmount'' \<in> columns df \<and> \<not> paid_numeric df
         then map (\<lambda>r. clean_paid_cell (is_object (map PaidAmount (body df))) (PaidAmount r)) (body df)
         else map PaidNumber (body df))
   \<and> map SupplyCost (body (fst (calculate_seller_metrics df))) =
        (if ''SupplyPrice'' \<in> columns df \<and> ''Qty'' \<in> columns df
         then map (\<lambda>r. clean_supply_cell (SupplyPrice r) * Qty r) (body df)
         else map SupplyCost (body df))
   \<and> map Margin (body (fst (calculate_seller_metrics df))) =
        (if stops_at_margin df then map Margin (body df)
         else if ''SupplyPrice'' \<in> columns df
           then map (\<lambda>r. PaidNumber r - SupplyCost r) (body (fst (calculate_seller_metrics df)))
           else map (\<lambda>r. 0) (body df))
   \<and> map IsCancelled (body (fst (calculate_seller_metrics df))) =
        (if stops_at_margin df then map IsCancelled (body df)
         else if ''CancelFlag'' \<in> columns df then map (\<lambda>r. is_cancelled_of (CancelFlag r)) (body df)
         else map (\<lambda>r. 0) (body df))
   \<and> map OrderNo (body (fst (calculate_seller_metrics df))) = map OrderNo (body df)
   \<and> map SellerName (body (fst (calculate_seller_metrics df))) = map SellerName (body df)
   \<and> map Contact (body (fst (calculate_seller_metrics df))) = map Contact (body df)
   \<and> map SupplyPrice (body (fst (calculate_seller_metrics df))) = map SupplyPrice (body df)
   \<and> map Qty (body (fst (calculate_seller_metrics df))) = map Qty (body df)
   \<and> map CancelFlag (body (fst (calculate_seller_metrics df))) = map CancelFlag (body df)
   \<and> map OrderDay (body (fst (calculate_seller_metrics df))) = map OrderDay (body df)
   \<and> map OrderDate (body (fst (calculate_seller_metrics df))) = map OrderDate (body df)
   \<and> map Date (body (fst (calculate_seller_metrics df))) = map Date (body df)
   \<and> map UserTotalOrders (body (fst (calculate_seller_metrics df))) = map UserTotalOrders (body df)
   \<and> map RepurchaseCount (body (fst (calculate_seller_metrics df))) = map RepurchaseCount (body df)
   \<and> map RepurchaseTimes (body (fst (calculate_seller_metrics df))) = map RepurchaseTimes (body df)"
  by (intro conjI calc_frame_columns calc_frame_paid_numeric calc_frame_PaidNumber
      calc_frame_SupplyCost calc_frame_Margin calc_frame_IsCancelled
      calc_frame_OrderNo calc_frame_SellerName calc_frame_Contact calc_frame_SupplyPrice
      calc_frame_Qty calc_frame_CancelFlag calc_frame_OrderDay calc_frame_OrderDate calc_frame_Date
      calc_frame_UserTotalOrders calc_frame_RepurchaseCount calc_frame_RepurchaseTimes)

text \<open>
  The claim as the specification states it (the argument is unchanged after the call)
  fails on the example table: the call adds the columns \<open>SupplyCost\<close>, \<open>Margin\<close> and
  \<open>IsCancelled\<close> and turns the paid amount column, a column of text, into a column of
  numbers, the text \<open>100\<close> of the second row into the number 100.
\<close>

theorem metrics_frame_counterexample:
  "fst (calculate_seller_metrics example_table) \<noteq> example_table
   \<and> columns (fst (calculate_seller_metrics example_table)) - columns example_table
        = {''SupplyCost'', ''Margin'', ''IsCancelled''}
   \<and> paid_numeric example_table = False
   \<and> paid_numeric (fst (calculate_seller_metrics example_table)) = True
   \<and> map PaidAmount (body example_table) ! 1 = Str ''100''
   \<and> map PaidNumber (body (fst (calculate_seller_metrics example_table))) ! 1 = 100"
proof -
  have c: "columns (fst (calculate_seller_metrics example_table)) - columns example_table
             = {''SupplyCost'', ''Margin'', ''IsCancelled''}"
    by (auto simp: calc_columns [OF example_required] example_columns file_columns_def)
  have n: "paid_numeric (fst (calculate_seller_metrics example_table)) = True"
    by (simp add: calc_frame_paid_numeric example_columns file_columns_def)
  have p: "map PaidAmount (body example_table) ! 1 = Str ''100''"
    by (simp add: example_body example_rows_def file_row_def)
  have "body (fst (calculate_seller_metrics example_table)) ! 1
          = final_row example_table (body example_table ! 1)"
    by (simp add: calc_body [OF example_required] example_body example_rows_def)
  moreover have "is_object (map PaidAmount (body example_table))"
    by (simp add: is_object_def example_body example_rows_def file_row_def)
  ultimately have p': "map PaidNumber (body (fst (calculate_seller_metrics example_table))) ! 1 = 100"
    by (simp add: final_row_def Let_def example_body example_rows_def file_row_def
        example_paid_numeric clean_paid_cell_def parse_defs calc_body [OF example_required])
  have "fst (calculate_seller_metrics example_table) \<noteq> example_table"
    using n example_paid_numeric by auto
  then show ?thesis
    using c n p p' example_paid_numeric by simp
qed

subsection \<open>Cleaning of currency cells\<close>

lemma regex_strip_idem: "regex_strip (regex_strip s) = regex_strip s"
  by (simp add: regex_strip_def)





subsection \<open>The two repurchase rates of a seller\<close>

lemmas report_defs = report_def analyze_seller_repurchase_def seller_result_def unique_def
  nansum_def revenue_cell_def

lemma rates_report:
  "analyze_seller_repurchase (file_table rates_rows) =
     Inr (Some [\<lparr>Seller_r = Some ''P'', TotalCustomers = 1, RepurchasingCustomers = 0,
                   RepurchaseRate_r = 0, TotalRevenue_r = Fin 600\<rparr>,
                \<lparr>Seller_r = Some ''Q'', TotalCustomers = 1, RepurchasingCustomers = 1,
                   RepurchaseRate_r = 100, TotalRevenue_r = Fin 400\<rparr>,
                \<lparr>Seller_r = Some ''R'', TotalCustomers = 2, RepurchasingCustomers = 1,
                   RepurchaseRate_r = 50, TotalRevenue_r = Fin 300\<rparr>])"
  by (simp add: rates_rows_def report_defs parse_defs frame_defs summary_defs)

lemma rates_summaries:
  "map (\<lambda>s. (Seller s, RepurchaseRate s)) (summaries (file_table rates_rows))
     = [(''P'', 100), (''Q'', 100), (''R'', 50)]"
  by (simp add: rates_rows_def parse_defs frame_defs summary_defs)

lemma collect_Inr: "collect xs = Inr ys \<Longrightarrow> xs = map Inr ys"
  by (induction xs arbitrary: ys) (auto split: sum.splits)

lemma seller_result_seller: "seller_result rows k = Inr res \<Longrightarrow> Seller_r res = k"
  by (auto simp: seller_result_def Let_def split: sum.splits)

lemma seller_result_rate:
  assumes "seller_result rows (Some s) = Inr res"
  shows "RepurchaseRate_r res = rate_by_days Date rows s"
proof -
  let ?rs = "seller_rows rows s"
  let ?ys = "List.map_filter Contact ?rs"
  let ?cnt = "\<lambda>c. nunique (map Date (filter (\<lambda>r. Contact r = Some c) ?rs))"
  let ?days = "\<lambda>c. {d. \<exists>r \<in> set ?rs. Contact r = Some c \<and> Date r = Some d}"
  have set_ys: "set ?ys = customers_of ?rs"
    by (simp add: set_map_filter customers_of_def)
  have total: "nunique (map Contact ?rs) = card (customers_of ?rs)"
    unfolding nunique_card customers_of_def by (rule arg_cong [where f = card]) force
  have "length (filter (\<lambda>n. n > 1) (map ?cnt (remdups ?ys)))
          = length (filter (\<lambda>c. 1 < ?cnt c) (remdups ?ys))"
    by (simp add: filter_map comp_def)
  also have "\<dots> = card (set (filter (\<lambda>c. 1 < ?cnt c) (remdups ?ys)))"
    by (rule distinct_card [symmetric]) simp
  also have "\<dots> = card {c \<in> customers_of ?rs. 1 < card (?days c)}"
    unfolding nunique_days by (rule arg_cong [where f = card]) (auto simp: set_ys)
  finally have re: "length (filter (\<lambda>n. n > 1) (map ?cnt (remdups ?ys)))
       = card {c \<in> customers_of ?rs. 1 < card (?days c)}" .
  have fin: "finite (customers_of ?rs)"
    using set_ys [symmetric] by simp
  have "RepurchaseRate_r res =
          (if nunique (map Contact ?rs) > 0
           then real (length (filter (\<lambda>n. n > 1) (map ?cnt (remdups ?ys))))
                  / real (nunique (map Contact ?rs)) * 100
           else 0)"
    using assms by (auto simp: seller_result_def Let_def split: sum.splits)
  then have "RepurchaseRate_r res =
               share {c \<in> customers_of ?rs. 1 < card (?days c)} (customers_of ?rs)"
    unfolding total re share_def using fin by (auto simp: card_gt_0_iff)
  then show ?thesis
    by (simp only: rate_by_days_def seller_rows_def Let_def)
qed

lemma rate_by_days_dates:
  "rate_by_days Date (body (load_data_dates df)) k
     = (if ''OrderDay'' \<in> columns df
        then rate_by_days (\<lambda>r. map_option dt_date (OrderDay r)) (body df) k
        else rate_by_days Date (body df) k)"
proof (cases "''OrderDay'' \<in> columns df")
  case False
  then show ?thesis by (simp add: load_data_dates_def)
next
  case True
  let ?f = "\<lambda>r. r\<lparr>OrderDate := OrderDay r, Date := map_option dt_date (OrderDay r)\<rparr>"
  let ?rs = "filter (\<lambda>r. SellerName r = Some k) (body df)"
  have b: "filter (\<lambda>r. SellerName r = Some k) (body (load_data_dates df)) = map ?f ?rs"
    using True by (simp add: load_data_dates_def filter_map comp_def)
  have c: "customers_of (map ?f ?rs) = customers_of ?rs"
    by (auto simp: customers_of_def)
  have d: "{d. \<exists>r \<in> set (map ?f ?rs). Contact r = Some c \<and> Date r = Some d}
             = {d. \<exists>r \<in> set ?rs. Contact r = Some c \<and> map_option dt_date (OrderDay r) = Some d}" for c
    by auto
  show ?thesis
    using True unfolding rate_by_days_def Let_def b c d by simp
qed

lemma report_rate:
  assumes "analyze_seller_repurchase df = Inr (Some rs)" and "res \<in> set rs"
    and "Seller_r res = Some k"
  shows "RepurchaseRate_r res = rate_by_days (\<lambda>r. map_option dt_date (OrderDay r)) (body df) k"
    and "''Contact'' \<in> columns df"
proof -
  have day: "''OrderDay'' \<in> columns df"
    using assms(1) by (auto simp: analyze_seller_repurchase_def split: if_splits)
  let ?d = "load_data_dates df"
  have cols: "{''SellerName'', ''Contact'', ''Date'', ''PaidAmount''} \<subseteq> columns ?d"
    using assms(1) day
    by (auto simp: analyze_seller_repurchase_def Let_def split: if_splits)
  then show "''Contact'' \<in> columns df"
    using day by (auto simp: load_data_dates_def)
  have "collect (map (seller_result (body ?d)) (unique (map SellerName (body ?d)))) = Inr rs"
    using assms(1) day cols
    by (auto simp: analyze_seller_repurchase_def Let_def split: if_splits sum.splits)
  then have "map (seller_result (body ?d)) (unique (map SellerName (body ?d))) = map Inr rs"
    by (rule collect_Inr)
  then have "Inr res \<in> set (map (seller_result (body ?d)) (unique (map SellerName (body ?d))))"
    using assms(2) by simp
  then obtain seller where run: "seller_result (body ?d) seller = Inr res"
    by auto
  have "seller = Some k"
    using seller_result_seller [OF run] assms(3) by simp
  then have "RepurchaseRate_r res = rate_by_days Date (body ?d) k"
    using run seller_result_rate by simp
  then show "RepurchaseRate_r res
               = rate_by_days (\<lambda>r. map_option dt_date (OrderDay r)) (body df) k"
    using day by (simp add: rate_by_days_dates)
qed

lemma repurchase_rate_by_rows: "repurchase_rate (seller_rows rows k) = rate_by_rows rows k"
  by (simp only: repurchase_rate_sets rate_by_rows_def share_def customers_of_def seller_rows_def
      Let_def)

lemma rates_heads:
  "analyze_seller_repurchase (file_table rates_rows) = Inr (Some (report (file_table rates_rows)))"
  "hd (report (file_table rates_rows)) \<in> set (report (file_table rates_rows))"
  "Seller_r (hd (report (file_table rates_rows))) = Some ''P''"
  "RepurchaseRate_r (hd (report (file_table rates_rows))) = 0"
  by (simp_all add: report_def rates_report)

lemma rates_summaries_heads:
  "snd (calculate_seller_metrics (file_table rates_rows)) = Inr (summaries (file_table rates_rows))"
  "hd (summaries (file_table rates_rows)) \<in> set (summaries (file_table rates_rows))"
  "Seller (hd (summaries (file_table rates_rows))) = ''P''"
  "RepurchaseRate (hd (summaries (file_table rates_rows))) = 100"
proof -
  obtain xs where xs: "snd (calculate_seller_metrics (file_table rates_rows)) = Inr xs"
    using file_table_required [of rates_rows] calc_ok_iff by blast
  then show a: "snd (calculate_seller_metrics (file_table rates_rows))
                  = Inr (summaries (file_table rates_rows))"
    by (simp add: summaries_def)
  have m: "map (\<lambda>s. (Seller s, RepurchaseRate s)) (summaries (file_table rates_rows))
              = [(''P'', 100), (''Q'', 100), (''R'', 50)]"
    by (rule rates_summaries)
  then obtain y ys where ys: "summaries (file_table rates_rows) = y # ys"
    by (cases "summaries (file_table rates_rows)") auto
  show "hd (summaries (file_table rates_rows)) \<in> set (summaries (file_table rates_rows))"
    by (simp add: ys)
  show "Seller (hd (summaries (file_table rates_rows))) = ''P''"
    using m by (simp add: ys)
  show "RepurchaseRate (hd (summaries (file_table rates_rows))) = 100"
    using m by (simp add: ys)
qed

text \<open>
  Claim C10. For a seller that both functions report on one table, the repurchase rate
  of the report (\<open>analyze_seller_repurchase\<close>) is the share of the seller's customers
  whose rows for the seller show more than one calendar day, and the one of the
  aggregator (\<open>calculate_seller_metrics\<close>) is the share of the seller's customers with
  more than one row for the seller. They differ on the table \<open>rates_rows\<close>: seller
  \<open>P\<close> has one customer with two rows on one calendar day, and the report gives \<open>P\<close>
  the rate 0 where the aggregator gives 100; for seller \<open>Q\<close>, whose customer has two
  rows on two days, and seller \<open>R\<close> both give the same rate.
\<close>

theorem repurchase_rates_differ:
  assumes "analyze_seller_repurchase df = Inr (Some rs)" and "res \<in> set rs"
    and "Seller_r res = Some k"
    and "snd (calculate_seller_metrics df) = Inr xs" and "s \<in> set xs" and "Seller s = k"
  shows "RepurchaseRate_r res = rate_by_days (\<lambda>r. map_option dt_date (OrderDay r)) (body df) k
       \<and> RepurchaseRate s = rate_by_rows (body df) k
       \<and> map (\<lambda>r. (Seller_r r, RepurchaseRate_r r)) (report (file_table rates_rows))
           = [(Some ''P'', 0), (Some ''Q'', 100), (Some ''R'', 50)]
       \<and> map (\<lambda>s. (Seller s, RepurchaseRate s)) (summaries (file_table rates_rows))
           = [(''P'', 100), (''Q'', 100), (''R'', 50)]
       \<and> map (\<lambda>r. (Contact r, map_option dt_date (OrderDay r))) (seller_rows rates_rows ''P'')
           = [(Some ''c1'', Some 0), (Some ''c1'', Some 0)]"
proof -
  have "RepurchaseRate s = repurchase_rate (seller_rows (body df) k)"
    using summary_repurchase_rate [OF assms(4,5)] report_rate(2) [OF assms(1-3)] assms(6)
    by simp
  then have "RepurchaseRate s = rate_by_rows (body df) k"
    by (simp only: repurchase_rate_by_rows)
  moreover have "map (\<lambda>r. (Contact r, map_option dt_date (OrderDay r))) (seller_rows rates_rows ''P'')
           = [(Some ''c1'', Some 0), (Some ''c1'', Some 0)]"
    by (simp add: rates_rows_def seller_rows_def file_row_def dt_date_def seconds_per_day_def)
  ultimately show ?thesis
    using report_rate(1) [OF assms(1-3)] rates_summaries
    by (simp add: report_def rates_report)
qed

theorem repurchase_rates_differ_witness:
  "analyze_seller_repurchase (file_table rates_rows) = Inr (Some (report (file_table rates_rows)))
   \<and> hd (report (file_table rates_rows)) \<in> set (report (file_table rates_rows))
   \<and> Seller_r (hd (report (file_table rates_rows))) = Some ''P''
   \<and> snd (calculate_seller_metrics (file_table rates_rows)) = Inr (summaries (file_table rates_rows))
   \<and> hd (summaries (file_table rates_rows)) \<in> set (summaries (file_table rates_rows))
   \<and> Seller (hd (summaries (file_table rates_rows))) = ''P''
   \<and> RepurchaseRate_r (hd (report (file_table rates_rows))) = 0
   \<and> rate_by_days (\<lambda>r. map_option dt_date (OrderDay r)) rates_rows ''P'' = 0
   \<and> RepurchaseRate (hd (summaries (file_table rates_rows))) = 100
   \<and> rate_by_rows rates_rows ''P'' = 100"
  using repurchase_rates_differ [OF rates_heads(1-3) rates_summaries_heads(1-3)]
    rates_heads rates_summaries_heads
  by (simp add: file_table_def)

subsection \<open>Order of the summary\<close>

text \<open>The summary is in descending order of revenue and holds the rows of the groups.
  The order among sellers of equal revenue is the one the sorting algorithm of the
  library leaves, which the source does not choose.\<close>

lemma sort_values_desc_sorted:
  "sorted (map (\<lambda>x. - TotalRevenue x) (sort_values_desc xs))"
  by (simp add: sort_values_desc_def)

lemma sort_values_desc_mset: "mset (sort_values_desc xs) = mset xs"
  by (simp add: sort_values_desc_def)

end
